theory Spec2Isabelle
  imports Complex_Main
begin

section \<open>Data model\<close>

text \<open>
  The persistence store holds three tables that the routes and services read and write:
  training days, planned activities and actual activities. Rows are kept in insertion
  order. Record identifiers are generated by the store; they are modelled as natural
  numbers drawn from a counter kept in the store, which is all the routes rely on (a
  created row gets an identifier that no earlier row has). Activity types are the strings
  the code compares (\<open>''shooting''\<close>, \<open>''pickup''\<close>, \<open>''custom''\<close>,
  \<open>''coach_skills''\<close>, \<open>''coach_weights''\<close>, \<open>''varsity''\<close>). A nullable column is
  an \<open>option\<close>. A calendar date is the number of days since 1970-01-01. The date of a
  training day is written by \<open>getOrCreateTrainingDay\<close> only, as \<open>new Date(date +
  'T00:00:00.000Z')\<close>, midnight UTC of the requested day; the row keeps that day, and
  stands for the instant \<open>utc_midnight\<close> of it.
\<close>

type_synonym ident = nat
type_synonym date = int

record planned_activity =
  pa_id :: ident
  pa_trainingDayId :: ident
  pa_type :: string
  plannedTime :: string
  location :: "string option"
  pa_name :: "string option"

record actual_activity =
  aa_id :: ident
  aa_trainingDayId :: ident
  aa_type :: string
  completedAt :: "string option"
  shootingMakes :: "int option"

record training_day =
  td_id :: ident
  td_userId :: ident
  td_date :: date
  isGameDay :: bool

text \<open>A training day as a query with \<open>include\<close> returns it: the row and its activities.\<close>

record training_day_incl = training_day +
  plannedActivities :: "planned_activity list"
  actualActivities :: "actual_activity list"

record store =
  tbl_trainingDay :: "training_day list"
  tbl_plannedActivity :: "planned_activity list"
  tbl_actualActivity :: "actual_activity list"
  nextId :: ident

section \<open>Activity reconciliation: \<open>formatTrainingDayResponse\<close>\<close>

record shooting_slot =
  ss_id :: ident
  ss_time :: string

record pickup_slot =
  ps_id :: ident
  ps_time :: string
  ps_location :: "string option"

record custom_slot =
  cs_id :: ident
  cs_time :: string
  cs_name :: "string option"

record completion =
  c_id :: ident
  c_completedAt :: "string option"

record planned_view =
  pv_shooting :: "shooting_slot option"
  pv_pickupRuns :: "pickup_slot list"
  pv_custom :: "custom_slot list"

record actual_view =
  av_shootingMakes :: int
  av_shootingCompletedAt :: "string option"
  av_coachSkills :: bool
  av_coachWeights :: bool
  av_varsity :: bool
  av_pickupRuns :: "completion list"
  av_custom :: "completion list"

record day_view =
  dv_id :: ident
  dv_date :: date
  dv_isGameDay :: bool
  dv_planned :: planned_view
  dv_actual :: actual_view

text \<open>JavaScript's \<open>x || 0\<close> on a nullable number: \<open>null\<close> and \<open>0\<close> both give \<open>0\<close>.\<close>

definition or_zero :: "int option \<Rightarrow> int" where
  "or_zero m = (case m of None \<Rightarrow> 0 | Some v \<Rightarrow> v)"

text \<open>The body of the first \<open>forEach\<close>: one planned activity is dispatched on its type.\<close>

definition shooting_slot_of :: "planned_activity \<Rightarrow> shooting_slot" where
  "shooting_slot_of activity = \<lparr>ss_id = pa_id activity, ss_time = plannedTime activity\<rparr>"

definition planned_step :: "planned_activity \<Rightarrow> planned_view \<Rightarrow> planned_view" where
  "planned_step activity planned =
     (if pa_type activity = ''shooting'' then
        planned\<lparr>pv_shooting := Some (shooting_slot_of activity)\<rparr>
      else if pa_type activity = ''pickup'' then
        planned\<lparr>pv_pickupRuns := pv_pickupRuns planned @
          [\<lparr>ps_id = pa_id activity, ps_time = plannedTime activity,
            ps_location = location activity\<rparr>]\<rparr>
      else if pa_type activity = ''custom'' then
        planned\<lparr>pv_custom := pv_custom planned @
          [\<lparr>cs_id = pa_id activity, cs_time = plannedTime activity,
            cs_name = pa_name activity\<rparr>]\<rparr>
      else planned)"

text \<open>The body of the second \<open>forEach\<close>: the \<open>switch\<close> on the actual activity's type.\<close>

definition actual_step :: "actual_activity \<Rightarrow> actual_view \<Rightarrow> actual_view" where
  "actual_step activity actual =
     (if aa_type activity = ''shooting'' then
        actual\<lparr>av_shootingMakes := or_zero (shootingMakes activity),
               av_shootingCompletedAt := completedAt activity\<rparr>
      else if aa_type activity = ''coach_skills'' then actual\<lparr>av_coachSkills := True\<rparr>
      else if aa_type activity = ''coach_weights'' then actual\<lparr>av_coachWeights := True\<rparr>
      else if aa_type activity = ''varsity'' then actual\<lparr>av_varsity := True\<rparr>
      else if aa_type activity = ''pickup'' then
        actual\<lparr>av_pickupRuns := av_pickupRuns actual @
          [\<lparr>c_id = aa_id activity, c_completedAt = completedAt activity\<rparr>]\<rparr>
      else if aa_type activity = ''custom'' then
        actual\<lparr>av_custom := av_custom actual @
          [\<lparr>c_id = aa_id activity, c_completedAt = completedAt activity\<rparr>]\<rparr>
      else actual)"

definition planned_init :: planned_view where
  "planned_init = \<lparr>pv_shooting = None, pv_pickupRuns = [], pv_custom = []\<rparr>"

definition actual_init :: actual_view where
  "actual_init = \<lparr>av_shootingMakes = 0, av_shootingCompletedAt = None,
     av_coachSkills = False, av_coachWeights = False, av_varsity = False,
     av_pickupRuns = [], av_custom = []\<rparr>"

definition formatTrainingDayResponse :: "training_day_incl \<Rightarrow> day_view" where
  "formatTrainingDayResponse trainingDay =
     \<lparr>dv_id = td_id trainingDay,
      dv_date = td_date trainingDay,
      dv_isGameDay = isGameDay trainingDay,
      dv_planned = fold planned_step (plannedActivities trainingDay) planned_init,
      dv_actual = fold actual_step (actualActivities trainingDay) actual_init\<rparr>"

section \<open>Dates and the server's clock\<close>

text \<open>
  A JavaScript \<open>Date\<close> is an instant, in milliseconds since 1970-01-01T00:00Z. The
  stats code truncates and steps dates in the server's local time (\<open>setHours\<close>,
  \<open>getDate\<close>, \<open>setDate\<close>, \<open>getDay\<close>) and reads the calendar date off in UTC
  (\<open>toISOString().split('T')[0]\<close>). \<open>tz\<close> is the offset of the server's zone, local time
  minus UTC, in milliseconds; it is the same at all instants considered (no change of
  daylight saving time within the days walked).
\<close>

type_synonym instant = int

definition day_ms :: int where
  "day_ms = 86400000"

text \<open>\<open>d.setHours(0, 0, 0, 0)\<close>: local midnight of the local day of \<open>t\<close>.\<close>

definition setHours0 :: "int \<Rightarrow> instant \<Rightarrow> instant" where
  "setHours0 tz t = ((t + tz) div day_ms) * day_ms - tz"

text \<open>\<open>d.setDate(d.getDate() + k)\<close>: the same local time of day, \<open>k\<close> local days on.\<close>

definition addDays :: "instant \<Rightarrow> int \<Rightarrow> instant" where
  "addDays t k = t + k * day_ms"

text \<open>\<open>d.toISOString().split('T')[0]\<close>, the UTC date of an instant, and
  \<open>new Date(dateStr + 'T00:00:00.000Z')\<close>, midnight UTC of a date.\<close>

definition iso_date :: "instant \<Rightarrow> date" where
  "iso_date t = t div day_ms"

definition utc_midnight :: "date \<Rightarrow> instant" where
  "utc_midnight d = d * day_ms"

text \<open>\<open>d.getDay()\<close>, the local day of the week: 1970-01-01 was a Thursday.\<close>

definition getDay :: "int \<Rightarrow> instant \<Rightarrow> nat" where
  "getDay tz t = nat (((t + tz) div day_ms + 4) mod 7)"

section \<open>Store queries\<close>

text \<open>\<open>include: { plannedActivities: true, actualActivities: true }\<close>: the rows of the
  two activity tables that point to the day, in table order.\<close>

definition include_activities :: "store \<Rightarrow> training_day \<Rightarrow> training_day_incl" where
  "include_activities s d =
     training_day.extend d
       \<lparr>plannedActivities = filter (\<lambda>p. pa_trainingDayId p = td_id d) (tbl_plannedActivity s),
        actualActivities = filter (\<lambda>a. aa_trainingDayId a = td_id d) (tbl_actualActivity s)\<rparr>"

text \<open>\<open>trainingDay.findUnique\<close> on the key \<open>userId_date\<close>, the date being midnight UTC
  of day \<open>d\<close>, and on \<open>id\<close>.\<close>

definition findUnique_userId_date :: "store \<Rightarrow> ident \<Rightarrow> date \<Rightarrow> training_day option" where
  "findUnique_userId_date s userId d =
     find (\<lambda>t. td_userId t = userId \<and> td_date t = d) (tbl_trainingDay s)"

definition findUnique_day :: "store \<Rightarrow> ident \<Rightarrow> training_day option" where
  "findUnique_day s i = find (\<lambda>t. td_id t = i) (tbl_trainingDay s)"

text \<open>\<open>trainingDay.create\<close>: the new row, with the next identifier, and the store that
  holds it.\<close>

definition trainingDay_create :: "store \<Rightarrow> ident \<Rightarrow> date \<Rightarrow> bool \<Rightarrow> training_day \<times> store" where
  "trainingDay_create s userId d g =
     (let row = \<lparr>td_id = nextId s, td_userId = userId, td_date = d, isGameDay = g\<rparr>
      in (row, s\<lparr>tbl_trainingDay := tbl_trainingDay s @ [row], nextId := Suc (nextId s)\<rparr>))"

definition getOrCreateTrainingDay :: "store \<Rightarrow> ident \<Rightarrow> date \<Rightarrow> training_day_incl \<times> store" where
  "getOrCreateTrainingDay s userId d =
     (case findUnique_userId_date s userId d of
        Some trainingDay \<Rightarrow> (include_activities s trainingDay, s)
      | None \<Rightarrow>
          (let (row, s') = trainingDay_create s userId d False
           in (include_activities s' row, s')))"

section \<open>Streak engine: \<open>calculateStreak\<close>\<close>

text \<open>One evaluation of the loop body's query: the day of \<open>userId\<close> at \<open>d\<close> with its
  shooting activities, the first of them (\<open>trainingDay?.actualActivities?.[0]\<close>), and
  \<open>shootingActivity?.shootingMakes || 0\<close>.\<close>

definition streak_shootingActivity :: "store \<Rightarrow> ident \<Rightarrow> date \<Rightarrow> actual_activity option" where
  "streak_shootingActivity s userId d =
     (case findUnique_userId_date s userId d of
        None \<Rightarrow> None
      | Some trainingDay \<Rightarrow>
          (case filter (\<lambda>a. aa_type a = ''shooting'')
                  (filter (\<lambda>a. aa_trainingDayId a = td_id trainingDay) (tbl_actualActivity s)) of
             [] \<Rightarrow> None
           | a # _ \<Rightarrow> Some a))"

definition streak_makes :: "store \<Rightarrow> ident \<Rightarrow> date \<Rightarrow> int" where
  "streak_makes s userId d =
     (case streak_shootingActivity s userId d of
        None \<Rightarrow> 0
      | Some a \<Rightarrow> or_zero (shootingMakes a))"

text \<open>
  The \<open>while (true)\<close> loop. Its state is the pair \<open>streak\<close>, \<open>currentDate\<close>, the latter an
  instant as \<open>today\<close> is; the function returns the final streak together with the dates
  whose training day the loop has queried, in query order. Each \<open>break\<close> is a branch
  that returns.
\<close>

function streak_loop :: "store \<Rightarrow> ident \<Rightarrow> instant \<Rightarrow> nat \<Rightarrow> instant \<Rightarrow> nat \<times> date list" where
  "streak_loop s userId today streak currentDate =
     (let dateStr = iso_date currentDate;
          makes = streak_makes s userId dateStr in
      if makes \<ge> 200 then
        (if Suc streak > 365 then (Suc streak, [dateStr])
         else (let r = streak_loop s userId today (Suc streak) (addDays currentDate (- 1))
               in (fst r, dateStr # snd r)))
      else if streak > 0 \<or> currentDate < today then (streak, [dateStr])
      else
        (if streak > 365 then (streak, [dateStr])
         else (let r = streak_loop s userId today streak (addDays currentDate (- 1))
               in (fst r, dateStr # snd r))))"
  by pat_completeness auto
termination
  by (relation "measures [\<lambda>(s, userId, today, streak, currentDate). 366 - streak,
                          \<lambda>(s, userId, today, streak, currentDate). nat (currentDate - today + 1)]")
     (auto simp add: addDays_def day_ms_def)

declare streak_loop.simps [simp del]

text \<open>\<open>clock\<close> is the instant \<open>new Date()\<close> returns.\<close>

definition calculateStreak_run :: "store \<Rightarrow> ident \<Rightarrow> instant \<Rightarrow> int \<Rightarrow> nat \<times> date list" where
  "calculateStreak_run s userId clock tz =
     (let today = setHours0 tz clock in streak_loop s userId today 0 today)"

definition calculateStreak :: "store \<Rightarrow> ident \<Rightarrow> instant \<Rightarrow> int \<Rightarrow> nat" where
  "calculateStreak s userId clock tz = fst (calculateStreak_run s userId clock tz)"

section \<open>JavaScript numbers\<close>

text \<open>
  The two percentages of the weekly statistics are computed in JavaScript's Number type,
  the IEEE 754 binary64 format, as \<open>Math.round((a / b) * 100)\<close>. A finite double is a
  rational number, and each arithmetic operation returns the double nearest to the exact
  result, a tie going to the even significand. \<open>to_double\<close> is that rounding for a
  significand of 53 bits; the exponent range is not bounded, which is exact for the
  quotients and products computed here (counters below \<open>2 ^ 53\<close>, results between
  \<open>2 ^ - 53\<close> and \<open>100\<close>).
\<close>

text \<open>The number of binary digits of a positive integer.\<close>

function bitlen :: "int \<Rightarrow> int" where
  "bitlen n = (if n \<le> 0 then 0 else 1 + bitlen (n div 2))"
  by pat_completeness auto
termination
  by (relation "measure nat") auto

declare bitlen.simps [simp del]

definition pow2 :: "int \<Rightarrow> rat" where
  "pow2 e = (if 0 \<le> e then 2 ^ nat e else 1 / 2 ^ nat (- e))"

text \<open>The exponent \<open>e\<close> with \<open>2 ^ e \<le> \<bar>x\<bar> < 2 ^ (e + 1)\<close>, for \<open>x \<noteq> 0\<close>.\<close>

definition binade :: "rat \<Rightarrow> int" where
  "binade x =
     (let (p, q) = quotient_of \<bar>x\<bar>;
          e = bitlen p - bitlen q
      in if pow2 e \<le> \<bar>x\<bar> then e else e - 1)"

definition round_ties_even :: "rat \<Rightarrow> int" where
  "round_ties_even r =
     (let f = \<lfloor>r\<rfloor>; d = r - of_int f
      in if d < 1 / 2 then f else if 1 / 2 < d then f + 1
         else if even f then f else f + 1)"

definition to_double :: "rat \<Rightarrow> rat" where
  "to_double x =
     (if x = 0 then 0
      else let sc = pow2 (52 - binade x) in of_int (round_ties_even (x * sc)) / sc)"

text \<open>\<open>a / b\<close> for \<open>b \<noteq> 0\<close> (the code divides by 7 and by a counter it has tested to be
  positive), \<open>a * b\<close>, and \<open>Math.round\<close>, which rounds a tie upwards.\<close>

definition num_div :: "rat \<Rightarrow> rat \<Rightarrow> rat" where
  "num_div a b = to_double (a / b)"

definition num_mul :: "rat \<Rightarrow> rat \<Rightarrow> rat" where
  "num_mul a b = to_double (a * b)"

definition Math_round :: "rat \<Rightarrow> int" where
  "Math_round x = \<lfloor>x + 1 / 2\<rfloor>"

section \<open>Times of day\<close>

text \<open>
  A time of day is stored as the string the client sent. \<open>t.split(':').map(Number)\<close> is
  modelled for the strings of the documented \<open>HH:MM\<close> format and their like: a part made
  of decimal digits only is its decimal value (the empty part is \<open>0\<close>), any other part is
  \<open>NaN\<close>, here \<open>None\<close>. (\<open>Number\<close> also reads signs, fractions, exponents, surrounding
  white space and hexadecimal literals; no time of day has them, and \<open>is_hhmm\<close> below
  excludes them where a statement depends on the value computed.) A missing second part
  is \<open>undefined\<close>, which makes the sum \<open>NaN\<close>.
\<close>

fun split_on :: "char \<Rightarrow> string \<Rightarrow> string list" where
  "split_on c [] = [[]]"
| "split_on c (x # xs) =
     (if x = c then [] # split_on c xs
      else (case split_on c xs of [] \<Rightarrow> [[x]] | r # rs \<Rightarrow> (x # r) # rs))"

definition is_digit :: "char \<Rightarrow> bool" where
  "is_digit c = (c \<in> set ''0123456789'')"

definition digit_val :: "char \<Rightarrow> int" where
  "digit_val c = int (of_char c) - 48"

definition js_Number :: "string \<Rightarrow> int option" where
  "js_Number t =
     (if list_all is_digit t then Some (foldl (\<lambda>n c. 10 * n + digit_val c) 0 t) else None)"

definition time_minutes :: "string \<Rightarrow> int option" where
  "time_minutes t =
     (case map js_Number (split_on CHR '':'' t) of
        Some h # Some m # _ \<Rightarrow> Some (h * 60 + m)
      | _ \<Rightarrow> None)"

definition is_hhmm :: "string \<Rightarrow> bool" where
  "is_hhmm t =
     (case t of
        [h1, h2, c, m1, m2] \<Rightarrow>
          is_digit h1 \<and> is_digit h2 \<and> c = CHR '':'' \<and> is_digit m1 \<and> is_digit m2
      | _ \<Rightarrow> False)"

text \<open>Truthiness of a nullable string: \<open>null\<close>, \<open>undefined\<close> and \<open>''\<close> are falsy.\<close>

definition truthy :: "string option \<Rightarrow> bool" where
  "truthy v = (case v of None \<Rightarrow> False | Some t \<Rightarrow> t \<noteq> [])"

section \<open>Weekly consistency engine: \<open>GET /api/stats/weekly\<close>\<close>

record daily_stat =
  ds_date :: date
  ds_dayOfWeek :: nat
  ds_makes :: int
  ds_completed :: bool

record weekly_stats =
  dailyStats :: "daily_stat list"
  completionPercentage :: int
  consistencyScore :: int
  totalMakes :: int

text \<open>\<open>trainingDay.findMany\<close> of a user with \<open>date: { gte, lte }\<close>, two instants, ordered
  by date.\<close>

definition findMany_between ::
  "store \<Rightarrow> ident \<Rightarrow> instant \<Rightarrow> instant \<Rightarrow> training_day_incl list" where
  "findMany_between s userId gte lte =
     map (include_activities s)
       (sort_key td_date
          (filter (\<lambda>t. td_userId t = userId \<and> gte \<le> utc_midnight (td_date t) \<and>
                        utc_midnight (td_date t) \<le> lte)
             (tbl_trainingDay s)))"

text \<open>The training days the weekly route queries: from \<open>weekAgo\<close> to \<open>today\<close>.\<close>

definition weekly_trainingDays :: "store \<Rightarrow> ident \<Rightarrow> instant \<Rightarrow> int \<Rightarrow> training_day_incl list" where
  "weekly_trainingDays s userId clock tz =
     (let today = setHours0 tz clock;
          weekAgo = addDays today (- 6)
      in findMany_between s userId weekAgo today)"

text \<open>The body of the \<open>for\<close> loop at index \<open>i\<close>.\<close>

definition daily_entry :: "training_day_incl list \<Rightarrow> int \<Rightarrow> instant \<Rightarrow> nat \<Rightarrow> daily_stat" where
  "daily_entry trainingDays tz weekAgo i =
     (let date = addDays weekAgo (int i);
          dateStr = iso_date date;
          dayData = find (\<lambda>t. td_date t = dateStr) trainingDays;
          shootingActivity =
            (case dayData of
               None \<Rightarrow> None
             | Some t \<Rightarrow> find (\<lambda>a. aa_type a = ''shooting'') (actualActivities t));
          makes = (case shootingActivity of None \<Rightarrow> 0 | Some a \<Rightarrow> or_zero (shootingMakes a))
      in \<lparr>ds_date = dateStr, ds_dayOfWeek = getDay tz date, ds_makes = makes,
          ds_completed = (makes \<ge> 200)\<rparr>)"

function dailyStats_loop ::
  "training_day_incl list \<Rightarrow> int \<Rightarrow> instant \<Rightarrow> nat \<Rightarrow> daily_stat list \<Rightarrow> daily_stat list" where
  "dailyStats_loop trainingDays tz weekAgo i acc =
     (if i < 7
      then dailyStats_loop trainingDays tz weekAgo (Suc i)
             (acc @ [daily_entry trainingDays tz weekAgo i])
      else acc)"
  by pat_completeness auto
termination
  by (relation "measure (\<lambda>(trainingDays, tz, weekAgo, i, acc). 7 - i)") auto

declare dailyStats_loop.simps [simp del]

text \<open>The test inside the inner \<open>forEach\<close>: the first actual activity of the planned
  activity's type, and the two times compared when both are truthy.\<close>

definition on_time :: "planned_activity \<Rightarrow> actual_activity list \<Rightarrow> bool" where
  "on_time planned actuals =
     (case find (\<lambda>a. if pa_type planned = ''shooting'' then aa_type a = ''shooting''
                      else aa_type a = pa_type planned) actuals of
        None \<Rightarrow> False
      | Some actual \<Rightarrow>
          (case completedAt actual of
             None \<Rightarrow> False
           | Some c \<Rightarrow>
               c \<noteq> [] \<and> plannedTime planned \<noteq> [] \<and>
               (case (time_minutes (plannedTime planned), time_minutes c) of
                  (Some p, Some a) \<Rightarrow> \<bar>a - p\<bar> \<le> 30
                | _ \<Rightarrow> False)))"

text \<open>The two counters, as the pair \<open>(onTime, totalPlanned)\<close>.\<close>

definition planned_count :: "training_day_incl \<Rightarrow> planned_activity \<Rightarrow> nat \<times> nat \<Rightarrow> nat \<times> nat" where
  "planned_count day planned cnt =
     (let totalPlanned = Suc (snd cnt);
          onTime = (if on_time planned (actualActivities day) then Suc (fst cnt) else fst cnt)
      in (onTime, totalPlanned))"

definition day_count :: "training_day_incl \<Rightarrow> nat \<times> nat \<Rightarrow> nat \<times> nat" where
  "day_count day cnt = fold (planned_count day) (plannedActivities day) cnt"

definition weeklyStats :: "store \<Rightarrow> ident \<Rightarrow> instant \<Rightarrow> int \<Rightarrow> weekly_stats" where
  "weeklyStats s userId clock tz =
     (let today = setHours0 tz clock;
          weekAgo = addDays today (- 6);
          trainingDays = findMany_between s userId weekAgo today;
          daily = dailyStats_loop trainingDays tz weekAgo 0 [];
          completedDays = length (filter ds_completed daily);
          cnt = fold day_count trainingDays (0, 0);
          onTime = fst cnt;
          totalPlanned = snd cnt
      in \<lparr>dailyStats = daily,
          completionPercentage = Math_round (num_mul (num_div (of_nat completedDays) 7) 100),
          consistencyScore =
            (if totalPlanned > 0
             then Math_round (num_mul (num_div (of_nat onTime) (of_nat totalPlanned)) 100)
             else 0),
          totalMakes = foldl (\<lambda>sum d. sum + ds_makes d) 0 daily\<rparr>)"

section \<open>Routes\<close>

text \<open>
  Every route of the training and the stats router runs behind \<open>authenticateToken\<close>;
  \<open>userId\<close> below is the verified identity \<open>req.user.userId\<close>. A handler is a function
  from the store to a response and the store it leaves; one request is handled at a
  time. A \<open>:date\<close> parameter is the day the string denotes. A field of the request body
  is \<open>None\<close> when it is absent, and has the JSON type the route expects otherwise. \<open>now\<close>
  is the current time of day, \<open>new Date().toTimeString().slice(0, 5)\<close>, \<open>clock\<close> the
  current instant and \<open>tz\<close> the offset of the server's zone. An exception thrown inside a handler reaches the error middleware, which
  answers with status 500. The routes of the auth router read and write the table of
  users only, which the store of this theory leaves out.
\<close>

record summary_view =
  sm_streak :: nat
  sm_totalMakes :: int
  sm_totalSessions :: nat
  sm_perfectDays :: nat
  sm_shootingDays :: nat

datatype body =
    Error string
  | Day day_view
  | Days "day_view list"
  | Streak nat
  | Summary summary_view
  | Weekly weekly_stats

type_synonym response = "nat \<times> body"

record planned_body =
  pb_type :: "string option"
  pb_time :: "string option"
  pb_location :: "string option"
  pb_name :: "string option"

record actual_body =
  ab_type :: "string option"
  ab_completedAt :: "string option"
  ab_shootingMakes :: "int option"

record update_body =
  ub_completedAt :: "string option"
  ub_shootingMakes :: "int option"

record shooting_body =
  sb_makes :: "int option"
  sb_completedAt :: "string option"

text \<open>\<open>a ?? b\<close> on nullable values, and \<open>a || b\<close> on a nullable string.\<close>

definition nullish :: "'a option \<Rightarrow> 'a option \<Rightarrow> 'a option" where
  "nullish a b = (case a of None \<Rightarrow> b | Some v \<Rightarrow> Some v)"

definition or_else :: "string option \<Rightarrow> string \<Rightarrow> string" where
  "or_else a b = (case a of None \<Rightarrow> b | Some v \<Rightarrow> (if v = [] then b else v))"

text \<open>The closing steps of the mutating routes: fetch the day by id with its activities
  and format it. Formatting \<open>null\<close> throws.\<close>

definition respond_day :: "nat \<Rightarrow> store \<Rightarrow> ident \<Rightarrow> response" where
  "respond_day status s i =
     (case findUnique_day s i of
        None \<Rightarrow> (500, Error ''Cannot read properties of null'')
      | Some d \<Rightarrow> (status, Day (formatTrainingDayResponse (include_activities s d))))"

subsection \<open>Store updates\<close>

definition plannedActivity_create ::
  "store \<Rightarrow> ident \<Rightarrow> string \<Rightarrow> string \<Rightarrow> string option \<Rightarrow> string option \<Rightarrow> store" where
  "plannedActivity_create s trainingDayId ty time loc nm =
     s\<lparr>tbl_plannedActivity := tbl_plannedActivity s @
          [\<lparr>pa_id = nextId s, pa_trainingDayId = trainingDayId, pa_type = ty,
            plannedTime = time, location = loc, pa_name = nm\<rparr>],
       nextId := Suc (nextId s)\<rparr>"

definition plannedActivity_deleteMany :: "store \<Rightarrow> ident \<Rightarrow> string \<Rightarrow> store" where
  "plannedActivity_deleteMany s trainingDayId ty =
     s\<lparr>tbl_plannedActivity :=
          filter (\<lambda>p. \<not> (pa_trainingDayId p = trainingDayId \<and> pa_type p = ty))
            (tbl_plannedActivity s)\<rparr>"

definition plannedActivity_delete :: "store \<Rightarrow> ident \<Rightarrow> store" where
  "plannedActivity_delete s i =
     s\<lparr>tbl_plannedActivity := filter (\<lambda>p. pa_id p \<noteq> i) (tbl_plannedActivity s)\<rparr>"

definition actualActivity_findFirst :: "store \<Rightarrow> ident \<Rightarrow> string \<Rightarrow> actual_activity option" where
  "actualActivity_findFirst s trainingDayId ty =
     find (\<lambda>a. aa_trainingDayId a = trainingDayId \<and> aa_type a = ty) (tbl_actualActivity s)"

definition actualActivity_create ::
  "store \<Rightarrow> ident \<Rightarrow> string \<Rightarrow> string option \<Rightarrow> int option \<Rightarrow> store" where
  "actualActivity_create s trainingDayId ty completed makes =
     s\<lparr>tbl_actualActivity := tbl_actualActivity s @
          [\<lparr>aa_id = nextId s, aa_trainingDayId = trainingDayId, aa_type = ty,
            completedAt = completed, shootingMakes = makes\<rparr>],
       nextId := Suc (nextId s)\<rparr>"

definition actualActivity_delete :: "store \<Rightarrow> ident \<Rightarrow> store" where
  "actualActivity_delete s i =
     s\<lparr>tbl_actualActivity := filter (\<lambda>a. aa_id a \<noteq> i) (tbl_actualActivity s)\<rparr>"

definition actualActivity_update ::
  "store \<Rightarrow> ident \<Rightarrow> string option \<Rightarrow> int option \<Rightarrow> store" where
  "actualActivity_update s i completed makes =
     s\<lparr>tbl_actualActivity :=
          map (\<lambda>a. if aa_id a = i then a\<lparr>completedAt := completed, shootingMakes := makes\<rparr> else a)
            (tbl_actualActivity s)\<rparr>"

definition trainingDay_update :: "store \<Rightarrow> ident \<Rightarrow> bool \<Rightarrow> store" where
  "trainingDay_update s i g =
     s\<lparr>tbl_trainingDay :=
          map (\<lambda>d. if td_id d = i then d\<lparr>isGameDay := g\<rparr> else d) (tbl_trainingDay s)\<rparr>"

subsection \<open>\<open>GET /:date\<close>, \<open>GET /\<close>, \<open>PUT /:date\<close>\<close>

definition get_day :: "store \<Rightarrow> ident \<Rightarrow> date \<Rightarrow> response \<times> store" where
  "get_day s userId d =
     (let (trainingDay, s1) = getOrCreateTrainingDay s userId d
      in ((200, Day (formatTrainingDayResponse trainingDay)), s1))"

definition list_days :: "store \<Rightarrow> ident \<Rightarrow> date option \<Rightarrow> date option \<Rightarrow> response \<times> store" where
  "list_days s userId start end =
     (case (start, end) of
        (Some lo, Some hi) \<Rightarrow>
          ((200, Days (map formatTrainingDayResponse
                         (findMany_between s userId (utc_midnight lo)
                            (utc_midnight hi + day_ms - 1)))), s)
      | _ \<Rightarrow> ((400, Error ''start and end query params required''), s))"

definition put_day :: "store \<Rightarrow> ident \<Rightarrow> date \<Rightarrow> bool option \<Rightarrow> response \<times> store" where
  "put_day s userId d g =
     (let (trainingDay, s1) = getOrCreateTrainingDay s userId d;
          s2 = trainingDay_update s1 (td_id trainingDay)
                 (case g of None \<Rightarrow> isGameDay trainingDay | Some v \<Rightarrow> v)
      in (respond_day 200 s2 (td_id trainingDay), s2))"

subsection \<open>\<open>POST /:date/planned\<close>\<close>

definition add_planned :: "store \<Rightarrow> ident \<Rightarrow> date \<Rightarrow> planned_body \<Rightarrow> response \<times> store" where
  "add_planned s userId d b =
     (case (pb_type b, pb_time b) of
        (Some ty, Some time) \<Rightarrow>
          if ty = [] \<or> time = [] then ((400, Error ''type and time are required''), s)
          else if ty \<notin> set [''shooting'', ''pickup'', ''custom''] then
            ((400, Error ''Invalid activity type''), s)
          else
            (let (trainingDay, s1) = getOrCreateTrainingDay s userId d;
                 s2 = (if ty = ''shooting''
                       then plannedActivity_deleteMany s1 (td_id trainingDay) ''shooting''
                       else s1);
                 s3 = plannedActivity_create s2 (td_id trainingDay) ty time
                        (if ty = ''pickup'' then pb_location b else None)
                        (if ty = ''custom'' then pb_name b else None)
             in (respond_day 201 s3 (td_id trainingDay), s3))
      | _ \<Rightarrow> ((400, Error ''type and time are required''), s))"

subsection \<open>\<open>DELETE /:date/planned/:activityId\<close>\<close>

text \<open>\<open>findUnique\<close> of an activity by id with \<open>include: { trainingDay: true }\<close>: the row
  and the day it points to. Reading \<open>userId\<close> of a missing day throws.\<close>

definition delete_planned :: "store \<Rightarrow> ident \<Rightarrow> date \<Rightarrow> ident \<Rightarrow> response \<times> store" where
  "delete_planned s userId d activityId =
     (case find (\<lambda>p. pa_id p = activityId) (tbl_plannedActivity s) of
        None \<Rightarrow> ((404, Error ''Activity not found''), s)
      | Some activity \<Rightarrow>
          (case findUnique_day s (pa_trainingDayId activity) of
             None \<Rightarrow> ((500, Error ''Cannot read properties of null''), s)
           | Some trainingDay \<Rightarrow>
               if td_userId trainingDay \<noteq> userId then ((404, Error ''Activity not found''), s)
               else
                 (let s1 = plannedActivity_delete s activityId
                  in (respond_day 200 s1 (pa_trainingDayId activity), s1))))"

subsection \<open>\<open>POST /:date/actual\<close>\<close>

definition log_actual ::
  "store \<Rightarrow> ident \<Rightarrow> string \<Rightarrow> date \<Rightarrow> actual_body \<Rightarrow> response \<times> store" where
  "log_actual s userId now d b =
     (case ab_type b of
        None \<Rightarrow> ((400, Error ''type is required''), s)
      | Some ty \<Rightarrow>
          if ty = [] then ((400, Error ''type is required''), s)
          else if ty \<notin> set [''shooting'', ''pickup'', ''custom'', ''coach_skills'',
                               ''coach_weights'', ''varsity''] then
            ((400, Error ''Invalid activity type''), s)
          else
            (let (trainingDay, s1) = getOrCreateTrainingDay s userId d;
                 s2 =
                   (if ty \<in> set [''coach_skills'', ''coach_weights'', ''varsity''] then
                      (case actualActivity_findFirst s1 (td_id trainingDay) ty of
                         Some existing \<Rightarrow> actualActivity_delete s1 (aa_id existing)
                       | None \<Rightarrow>
                           actualActivity_create s1 (td_id trainingDay) ty
                             (Some (or_else (ab_completedAt b) now)) None)
                    else if ty = ''shooting'' then
                      (case actualActivity_findFirst s1 (td_id trainingDay) ''shooting'' of
                         Some existing \<Rightarrow>
                           actualActivity_update s1 (aa_id existing)
                             (nullish (ab_completedAt b) (completedAt existing))
                             (nullish (ab_shootingMakes b) (shootingMakes existing))
                       | None \<Rightarrow>
                           actualActivity_create s1 (td_id trainingDay) ''shooting''
                             (ab_completedAt b) (Some (or_zero (ab_shootingMakes b))))
                    else
                      actualActivity_create s1 (td_id trainingDay) ty (ab_completedAt b) None)
             in (respond_day 200 s2 (td_id trainingDay), s2)))"

subsection \<open>\<open>PUT /:date/actual/:activityId\<close>\<close>

definition update_actual ::
  "store \<Rightarrow> ident \<Rightarrow> date \<Rightarrow> ident \<Rightarrow> update_body \<Rightarrow> response \<times> store" where
  "update_actual s userId d activityId b =
     (case find (\<lambda>a. aa_id a = activityId) (tbl_actualActivity s) of
        None \<Rightarrow> ((404, Error ''Activity not found''), s)
      | Some activity \<Rightarrow>
          (case findUnique_day s (aa_trainingDayId activity) of
             None \<Rightarrow> ((500, Error ''Cannot read properties of null''), s)
           | Some trainingDay \<Rightarrow>
               if td_userId trainingDay \<noteq> userId then ((404, Error ''Activity not found''), s)
               else
                 (let s1 = actualActivity_update s activityId
                             (nullish (ub_completedAt b) (completedAt activity))
                             (nullish (ub_shootingMakes b) (shootingMakes activity))
                  in (respond_day 200 s1 (aa_trainingDayId activity), s1))))"

subsection \<open>\<open>PUT /:date/shooting\<close>\<close>

definition quick_shooting ::
  "store \<Rightarrow> ident \<Rightarrow> string \<Rightarrow> date \<Rightarrow> shooting_body \<Rightarrow> response \<times> store" where
  "quick_shooting s userId now d b =
     (case sb_makes b of
        None \<Rightarrow> ((400, Error ''makes must be a number''), s)
      | Some makes \<Rightarrow>
          (let (trainingDay, s1) = getOrCreateTrainingDay s userId d;
               shootingActivity = actualActivity_findFirst s1 (td_id trainingDay) ''shooting'';
               stored = (case shootingActivity of None \<Rightarrow> None | Some a \<Rightarrow> completedAt a);
               newCompletedAt =
                 (if makes \<ge> 200 \<and> \<not> truthy stored \<and> \<not> truthy (sb_completedAt b)
                  then Some now else sb_completedAt b);
               s2 =
                 (case shootingActivity of
                    Some a \<Rightarrow>
                      actualActivity_update s1 (aa_id a)
                        (nullish newCompletedAt (completedAt a)) (Some makes)
                  | None \<Rightarrow>
                      actualActivity_create s1 (td_id trainingDay) ''shooting''
                        newCompletedAt (Some makes))
           in (respond_day 200 s2 (td_id trainingDay), s2)))"

subsection \<open>\<open>GET /api/stats/streak\<close>, \<open>GET /api/stats/summary\<close>, \<open>GET /api/stats/weekly\<close>\<close>

text \<open>The actual activities of a user, \<open>where: { trainingDay: { userId } }\<close>: the rows
  whose day belongs to the user.\<close>

definition actualActivities_of_user :: "store \<Rightarrow> ident \<Rightarrow> actual_activity list" where
  "actualActivities_of_user s userId =
     filter (\<lambda>a. case findUnique_day s (aa_trainingDayId a) of
                    None \<Rightarrow> False
                  | Some t \<Rightarrow> td_userId t = userId) (tbl_actualActivity s)"

definition stats_streak :: "store \<Rightarrow> ident \<Rightarrow> instant \<Rightarrow> int \<Rightarrow> response \<times> store" where
  "stats_streak s userId clock tz = ((200, Streak (calculateStreak s userId clock tz)), s)"

definition stats_summary :: "store \<Rightarrow> ident \<Rightarrow> instant \<Rightarrow> int \<Rightarrow> response \<times> store" where
  "stats_summary s userId clock tz =
     (let mine = actualActivities_of_user s userId;
          shooting = filter (\<lambda>a. aa_type a = ''shooting'') mine;
          sessionsCount =
            length (filter (\<lambda>a. aa_type a \<in> set [''coach_skills'', ''coach_weights'', ''varsity'',
                                                  ''pickup'', ''custom'']) mine);
          perfectDays =
            length (filter (\<lambda>a. case shootingMakes a of None \<Rightarrow> False | Some m \<Rightarrow> m \<ge> 200)
                      shooting);
          streak = calculateStreak s userId clock tz
      in ((200, Summary
             \<lparr>sm_streak = streak,
              sm_totalMakes = sum_list (map (\<lambda>a. or_zero (shootingMakes a)) shooting),
              sm_totalSessions = sessionsCount,
              sm_perfectDays = perfectDays,
              sm_shootingDays = length shooting\<rparr>), s))"

definition stats_weekly :: "store \<Rightarrow> ident \<Rightarrow> instant \<Rightarrow> int \<Rightarrow> response \<times> store" where
  "stats_weekly s userId clock tz = ((200, Weekly (weeklyStats s userId clock tz)), s)"

subsection \<open>All routes\<close>

datatype request =
    GetDay date
  | ListDays "date option" "date option"
  | PutDay date "bool option"
  | AddPlanned date planned_body
  | DeletePlanned date ident
  | LogActual date actual_body
  | UpdateActual date ident update_body
  | QuickShooting date shooting_body
  | GetStreak
  | GetSummary
  | GetWeekly

fun handle ::
  "store \<Rightarrow> ident \<Rightarrow> string \<Rightarrow> instant \<Rightarrow> int \<Rightarrow> request \<Rightarrow> response \<times> store" where
  "handle s userId now clock tz (GetDay d) = get_day s userId d"
| "handle s userId now clock tz (ListDays start end) = list_days s userId start end"
| "handle s userId now clock tz (PutDay d g) = put_day s userId d g"
| "handle s userId now clock tz (AddPlanned d b) = add_planned s userId d b"
| "handle s userId now clock tz (DeletePlanned d i) = delete_planned s userId d i"
| "handle s userId now clock tz (LogActual d b) = log_actual s userId now d b"
| "handle s userId now clock tz (UpdateActual d i b) = update_actual s userId d i b"
| "handle s userId now clock tz (QuickShooting d b) = quick_shooting s userId now d b"
| "handle s userId now clock tz GetStreak = stats_streak s userId clock tz"
| "handle s userId now clock tz GetSummary = stats_summary s userId clock tz"
| "handle s userId now clock tz GetWeekly = stats_weekly s userId clock tz"

section \<open>Properties of days and stores\<close>

text \<open>
  The definitions of this section name what the statements below speak of; they are not
  part of the code. \<open>shooting_planned\<close> and \<open>shooting_actual\<close>: the shooting-type records
  of a day, in the order of its collections. \<open>local_date\<close>: the server's calendar date,
  today. \<open>queried_before\<close>: the dates before today that \<open>calculateStreak\<close> queries.
  \<open>window_days\<close>: the user's training days of the 7-day window, a date and the 6 dates
  before it, by date. \<open>store_ok\<close>: every identifier in the store was drawn
  from the counter, so the next identifier is fresh. \<open>actuals_of_type\<close>: the actual
  activities of a type that a user's day holds (none if the day has no record).
  \<open>planned_shooting\<close>: the planned shooting activities of the day with a given id.
  \<open>single_slot\<close>: no day holds more than one planned shooting activity.
\<close>

definition shooting_planned :: "training_day_incl \<Rightarrow> planned_activity list" where
  "shooting_planned td = filter (\<lambda>a. pa_type a = ''shooting'') (plannedActivities td)"

definition shooting_actual :: "training_day_incl \<Rightarrow> actual_activity list" where
  "shooting_actual td = filter (\<lambda>a. aa_type a = ''shooting'') (actualActivities td)"

definition local_date :: "int \<Rightarrow> instant \<Rightarrow> date" where
  "local_date tz t = (t + tz) div day_ms"


definition window_days :: "store \<Rightarrow> ident \<Rightarrow> date \<Rightarrow> training_day_incl list" where
  "window_days s userId today =
     map (include_activities s)
       (sort_key td_date
          (filter (\<lambda>t. td_userId t = userId \<and> today - 6 \<le> td_date t \<and> td_date t \<le> today)
             (tbl_trainingDay s)))"

definition store_ok :: "store \<Rightarrow> bool" where
  "store_ok s =
     (list_all (\<lambda>t. td_id t < nextId s) (tbl_trainingDay s) \<and>
      list_all (\<lambda>p. pa_id p < nextId s \<and> pa_trainingDayId p < nextId s) (tbl_plannedActivity s) \<and>
      list_all (\<lambda>a. aa_id a < nextId s \<and> aa_trainingDayId a < nextId s) (tbl_actualActivity s))"

definition actuals_of_type :: "store \<Rightarrow> ident \<Rightarrow> date \<Rightarrow> string \<Rightarrow> actual_activity list" where
  "actuals_of_type s userId d ty =
     (case findUnique_userId_date s userId d of
        None \<Rightarrow> []
      | Some t \<Rightarrow>
          filter (\<lambda>a. aa_trainingDayId a = td_id t \<and> aa_type a = ty) (tbl_actualActivity s))"

text \<open>The completion time stored for the shooting activity of a user's day.\<close>

definition stored_completedAt :: "store \<Rightarrow> ident \<Rightarrow> date \<Rightarrow> string option" where
  "stored_completedAt s userId d =
     (case actuals_of_type s userId d ''shooting'' of [] \<Rightarrow> None | a # _ \<Rightarrow> completedAt a)"

definition planned_shooting :: "store \<Rightarrow> ident \<Rightarrow> planned_activity list" where
  "planned_shooting s i =
     filter (\<lambda>p. pa_trainingDayId p = i \<and> pa_type p = ''shooting'') (tbl_plannedActivity s)"

text \<open>The identifier a planned activity gets that is added to a user's day: the next
  identifier, or the one after it when the day has no record and is created first.\<close>

definition new_planned_id :: "store \<Rightarrow> ident \<Rightarrow> date \<Rightarrow> ident" where
  "new_planned_id s userId d =
     (case findUnique_userId_date s userId d of None \<Rightarrow> Suc (nextId s) | Some t \<Rightarrow> nextId s)"

definition single_slot :: "store \<Rightarrow> bool" where
  "single_slot s =
     list_all (\<lambda>p. length (planned_shooting s (pa_trainingDayId p)) \<le> 1) (tbl_plannedActivity s)"

section \<open>The weekly statistics as the specification words them\<close>

text \<open>
  The definitions of this section do not come from the code. They word the consistency
  score as the specification does, to be compared with \<open>weeklyStats\<close>: the value of an
  \<open>HH:MM\<close> string in minutes, the two readings of ``a matching actual activity is on
  time'' (the first activity of the planned activity's type; some activity of that type),
  and the two counts.
\<close>

definition hhmm_minutes :: "string \<Rightarrow> int" where
  "hhmm_minutes t =
     (case t of
        [h1, h2, c, m1, m2] \<Rightarrow>
          (10 * digit_val h1 + digit_val h2) * 60 + (10 * digit_val m1 + digit_val m2)
      | _ \<Rightarrow> 0)"

definition within_30 :: "planned_activity \<Rightarrow> actual_activity \<Rightarrow> bool" where
  "within_30 p a =
     (case completedAt a of
        None \<Rightarrow> False
      | Some c \<Rightarrow> \<bar>hhmm_minutes c - hhmm_minutes (plannedTime p)\<bar> \<le> 30)"

definition first_on_time :: "planned_activity \<Rightarrow> actual_activity list \<Rightarrow> bool" where
  "first_on_time p actuals =
     (case find (\<lambda>a. aa_type a = pa_type p) actuals of
        None \<Rightarrow> False
      | Some a \<Rightarrow> within_30 p a)"

definition some_on_time :: "planned_activity \<Rightarrow> actual_activity list \<Rightarrow> bool" where
  "some_on_time p actuals = list_ex (\<lambda>a. aa_type a = pa_type p \<and> within_30 p a) actuals"

definition count_on_time ::
  "(planned_activity \<Rightarrow> actual_activity list \<Rightarrow> bool) \<Rightarrow> training_day_incl list \<Rightarrow> nat" where
  "count_on_time P days =
     sum_list (map (\<lambda>d. length (filter (\<lambda>p. P p (actualActivities d)) (plannedActivities d))) days)"

definition count_planned :: "training_day_incl list \<Rightarrow> nat" where
  "count_planned days = sum_list (map (\<lambda>d. length (plannedActivities d)) days)"

text \<open>Every planned time and every completion time of the days is an \<open>HH:MM\<close> string.\<close>

definition hhmm_times :: "training_day_incl list \<Rightarrow> bool" where
  "hhmm_times days =
     list_all (\<lambda>d. list_all (\<lambda>p. is_hhmm (plannedTime p)) (plannedActivities d) \<and>
                    list_all (\<lambda>a. case completedAt a of None \<Rightarrow> True | Some c \<Rightarrow> is_hhmm c)
                      (actualActivities d)) days"

text \<open>The score as claim C3 states it: \<open>round(100 \<times> onTime / totalPlanned)\<close> in exact
  arithmetic, a planned activity being on time when some actual activity of its type is
  within 30 minutes; 0 without planned activities.\<close>

definition claimed_consistencyScore :: "training_day_incl list \<Rightarrow> int" where
  "claimed_consistencyScore days =
     (if count_planned days = 0 then 0
      else \<lfloor>100 * rat_of_nat (count_on_time some_on_time days) / rat_of_nat (count_planned days)
             + 1 / 2\<rfloor>)"

section \<open>Example inputs\<close>

text \<open>A day whose planned and actual collections each hold two shooting records.\<close>

definition dup_day :: training_day_incl where
  "dup_day =
     \<lparr>td_id = 1, td_userId = 1, td_date = 19737, isGameDay = False,
      plannedActivities =
        [\<lparr>pa_id = 2, pa_trainingDayId = 1, pa_type = ''shooting'', plannedTime = ''17:00'',
          location = None, pa_name = None\<rparr>,
         \<lparr>pa_id = 3, pa_trainingDayId = 1, pa_type = ''shooting'', plannedTime = ''18:00'',
          location = None, pa_name = None\<rparr>],
      actualActivities =
        [\<lparr>aa_id = 4, aa_trainingDayId = 1, aa_type = ''shooting'', completedAt = Some ''17:20'',
          shootingMakes = Some 100\<rparr>,
         \<lparr>aa_id = 5, aa_trainingDayId = 1, aa_type = ''shooting'', completedAt = Some ''18:30'',
          shootingMakes = Some 250\<rparr>]\<rparr>"

text \<open>A store of user 7: 200 makes on day 19736, 150 makes on day 19735, and no record
  for day 19737.\<close>

definition break_store :: store where
  "break_store =
     \<lparr>tbl_trainingDay =
        [\<lparr>td_id = 1, td_userId = 7, td_date = 19735, isGameDay = False\<rparr>,
         \<lparr>td_id = 2, td_userId = 7, td_date = 19736, isGameDay = False\<rparr>],
      tbl_plannedActivity = [],
      tbl_actualActivity =
        [\<lparr>aa_id = 3, aa_trainingDayId = 1, aa_type = ''shooting'', completedAt = None,
          shootingMakes = Some 150\<rparr>,
         \<lparr>aa_id = 4, aa_trainingDayId = 2, aa_type = ''shooting'', completedAt = Some ''18:10'',
          shootingMakes = Some 200\<rparr>],
      nextId = 5\<rparr>"

text \<open>A store of user 7 with 200 makes on each of the 366 days before day 20000, and no
  record for day 20000.\<close>

definition year_store :: store where
  "year_store =
     \<lparr>tbl_trainingDay =
        map (\<lambda>i. \<lparr>td_id = i, td_userId = 7, td_date = 20000 - int i, isGameDay = False\<rparr>)
          [1..<367],
      tbl_plannedActivity = [],
      tbl_actualActivity =
        map (\<lambda>i. \<lparr>aa_id = 1000 + i, aa_trainingDayId = i, aa_type = ''shooting'',
                  completedAt = None, shootingMakes = Some 200\<rparr>)
          [1..<367],
      nextId = 2000\<rparr>"

text \<open>The scenario of 2024-01-15 (day 19737): shooting planned at 17:00, 210 makes
  completed at 17:20.\<close>

definition scenario_store :: store where
  "scenario_store =
     \<lparr>tbl_trainingDay = [\<lparr>td_id = 1, td_userId = 7, td_date = 19737, isGameDay = False\<rparr>],
      tbl_plannedActivity =
        [\<lparr>pa_id = 2, pa_trainingDayId = 1, pa_type = ''shooting'', plannedTime = ''17:00'',
          location = None, pa_name = None\<rparr>],
      tbl_actualActivity =
        [\<lparr>aa_id = 3, aa_trainingDayId = 1, aa_type = ''shooting'', completedAt = Some ''17:20'',
          shootingMakes = Some 210\<rparr>],
      nextId = 4\<rparr>"

text \<open>A day with one pickup run planned at 17:00 and two pickup runs logged, the first at
  10:00 and the second at 17:10.\<close>

definition cross_store :: store where
  "cross_store =
     \<lparr>tbl_trainingDay = [\<lparr>td_id = 1, td_userId = 7, td_date = 19737, isGameDay = False\<rparr>],
      tbl_plannedActivity =
        [\<lparr>pa_id = 2, pa_trainingDayId = 1, pa_type = ''pickup'', plannedTime = ''17:00'',
          location = Some ''gym'', pa_name = None\<rparr>],
      tbl_actualActivity =
        [\<lparr>aa_id = 3, aa_trainingDayId = 1, aa_type = ''pickup'', completedAt = Some ''10:00'',
          shootingMakes = None\<rparr>,
         \<lparr>aa_id = 4, aa_trainingDayId = 1, aa_type = ''pickup'', completedAt = Some ''17:10'',
          shootingMakes = None\<rparr>],
      nextId = 5\<rparr>"

text \<open>A store in which the day of user 7 at 19737 holds two planned shooting activities.\<close>

definition dup_store :: store where
  "dup_store =
     \<lparr>tbl_trainingDay = [\<lparr>td_id = 1, td_userId = 7, td_date = 19737, isGameDay = False\<rparr>],
      tbl_plannedActivity =
        [\<lparr>pa_id = 2, pa_trainingDayId = 1, pa_type = ''shooting'', plannedTime = ''17:00'',
          location = None, pa_name = None\<rparr>,
         \<lparr>pa_id = 3, pa_trainingDayId = 1, pa_type = ''shooting'', plannedTime = ''18:00'',
          location = None, pa_name = None\<rparr>],
      tbl_actualActivity = [],
      nextId = 4\<rparr>"

text \<open>Two instants, 2024-01-15T01:00Z (on day 19737) and 01:00Z on day 20000, and the
  offset of Asia/Tokyo, nine hours east of UTC: there both instants are 10:00 of the same
  calendar day.\<close>

definition clock_19737 :: instant where
  "clock_19737 = 1705280400000"

definition clock_20000 :: instant where
  "clock_20000 = 1728003600000"

definition tokyo :: int where
  "tokyo = 32400000"

section \<open>Lists and store queries\<close>

lemma find_app: "find P (xs @ ys) = (case find P xs of None \<Rightarrow> find P ys | Some x \<Rightarrow> Some x)"
  by (induction xs) auto


lemma find_filter: "find P xs = (case filter P xs of [] \<Rightarrow> None | x # _ \<Rightarrow> Some x)"
  by (induction xs) auto

lemma filter_map_update:
  assumes "\<And>x. P (f x) = P x"
  shows "filter P (map f xs) = map f (filter P xs)"
  by (induction xs) (simp_all add: assms)

lemma td_id_include [simp]: "td_id (include_activities s t) = td_id t"
  by (simp add: include_activities_def training_day.defs)

lemma td_date_include [simp]: "td_date (include_activities s t) = td_date t"
  by (simp add: include_activities_def training_day.defs)

lemma trainingDay_create_simps [simp]:
  "td_id (fst (trainingDay_create s userId d g)) = nextId s"
  "td_userId (fst (trainingDay_create s userId d g)) = userId"
  "td_date (fst (trainingDay_create s userId d g)) = d"
  "tbl_trainingDay (snd (trainingDay_create s userId d g)) =
     tbl_trainingDay s @ [fst (trainingDay_create s userId d g)]"
  "tbl_plannedActivity (snd (trainingDay_create s userId d g)) = tbl_plannedActivity s"
  "tbl_actualActivity (snd (trainingDay_create s userId d g)) = tbl_actualActivity s"
  "nextId (snd (trainingDay_create s userId d g)) = Suc (nextId s)"
  by (simp_all add: trainingDay_create_def Let_def)

lemma getOrCreate_existing:
  "findUnique_userId_date s userId d = Some t \<Longrightarrow>
   getOrCreateTrainingDay s userId d = (include_activities s t, s)"
  by (simp add: getOrCreateTrainingDay_def)

lemma getOrCreate_missing:
  "findUnique_userId_date s userId d = None \<Longrightarrow>
   getOrCreateTrainingDay s userId d =
     (include_activities (snd (trainingDay_create s userId d False))
        (fst (trainingDay_create s userId d False)),
      snd (trainingDay_create s userId d False))"
  by (simp add: getOrCreateTrainingDay_def split_beta)

lemma findUnique_created:
  "findUnique_userId_date s userId d = None \<Longrightarrow>
   findUnique_userId_date (snd (trainingDay_create s userId d g)) userId d =
     Some (fst (trainingDay_create s userId d g))"
  by (simp add: findUnique_userId_date_def find_app)

lemma store_ok_created: "store_ok s \<Longrightarrow> store_ok (snd (trainingDay_create s userId d g))"
  by (auto simp add: store_ok_def list_all_iff)

lemma store_ok_no_actuals:
  "store_ok s \<Longrightarrow> filter (\<lambda>a. aa_trainingDayId a = nextId s \<and> P a) (tbl_actualActivity s) = []"
  by (auto simp add: store_ok_def list_all_iff filter_empty_conv)

text \<open>What \<open>getOrCreateTrainingDay\<close> leaves: the day it returns is the user's day of that
  date in the store it returns, the two activity tables are as before, and the day holds
  the activities it held before (none, when the day is new).\<close>

lemma getOrCreate_cases:
  assumes "store_ok s"
  obtains s' t where
    "getOrCreateTrainingDay s userId d = (include_activities s' t, s')"
    "findUnique_userId_date s' userId d = Some t"
    "tbl_actualActivity s' = tbl_actualActivity s"
    "tbl_plannedActivity s' = tbl_plannedActivity s"
    "store_ok s'"
    "\<And>ty. actuals_of_type s' userId d ty = actuals_of_type s userId d ty"
proof (cases "findUnique_userId_date s userId d")
  case None
  let ?s' = "snd (trainingDay_create s userId d False)"
  let ?t = "fst (trainingDay_create s userId d False)"
  have "actuals_of_type ?s' userId d ty = actuals_of_type s userId d ty" for ty
    using store_ok_no_actuals [OF assms, of "\<lambda>a. aa_type a = ty"]
    by (simp add: actuals_of_type_def None findUnique_created [OF None])
  then show ?thesis
    using that [of ?s' ?t] getOrCreate_missing [OF None] findUnique_created [OF None]
      store_ok_created [OF assms]
    by simp
next
  case (Some t)
  then show ?thesis
    using that [of s t] getOrCreate_existing [OF Some] assms by simp
qed

section \<open>Activity reconciliation: duplicates\<close>

lemma pv_shooting_planned_step:
  "pv_shooting (planned_step a p) =
     (if pa_type a = ''shooting'' then Some (shooting_slot_of a) else pv_shooting p)"
  by (simp add: planned_step_def)

lemma fold_planned_step_shooting:
  "pv_shooting (fold planned_step xs p) =
     (case filter (\<lambda>a. pa_type a = ''shooting'') xs of
        [] \<Rightarrow> pv_shooting p
      | _ \<Rightarrow> Some (shooting_slot_of (last (filter (\<lambda>a. pa_type a = ''shooting'') xs))))"
proof (induction xs arbitrary: p)
  case Nil
  show ?case by simp
next
  case (Cons a xs)
  show ?case
    by (simp add: Cons.IH pv_shooting_planned_step split: list.splits)
qed

lemma av_shooting_actual_step:
  "(av_shootingMakes (actual_step a v), av_shootingCompletedAt (actual_step a v)) =
     (if aa_type a = ''shooting'' then (or_zero (shootingMakes a), completedAt a)
      else (av_shootingMakes v, av_shootingCompletedAt v))"
  by (simp add: actual_step_def)

lemma fold_actual_step_shooting:
  "(av_shootingMakes (fold actual_step xs v), av_shootingCompletedAt (fold actual_step xs v)) =
     (case filter (\<lambda>a. aa_type a = ''shooting'') xs of
        [] \<Rightarrow> (av_shootingMakes v, av_shootingCompletedAt v)
      | _ \<Rightarrow> (let a = last (filter (\<lambda>a. aa_type a = ''shooting'') xs)
              in (or_zero (shootingMakes a), completedAt a)))"
proof (induction xs arbitrary: v)
  case Nil
  show ?case by simp
next
  case (Cons a xs)
  show ?case
    using av_shooting_actual_step [of a v]
    by (simp add: Cons.IH Let_def split: list.splits)
qed

text \<open>
  Claim C2, as amended. For every training day whose planned (or actual) collection holds
  more than one shooting-type record, the reconciliation fills the single shooting slot of
  the output from the last shooting-type record of the pass, each later record overwriting
  the slot; \<open>formatTrainingDayResponse\<close> is total, so it returns on such duplicates.
\<close>

theorem formatTrainingDayResponse_shooting_last:
  "(1 < length (shooting_planned td) \<longrightarrow>
      pv_shooting (dv_planned (formatTrainingDayResponse td)) =
        Some (shooting_slot_of (last (shooting_planned td))))
   \<and> (1 < length (shooting_actual td) \<longrightarrow>
      av_shootingMakes (dv_actual (formatTrainingDayResponse td)) =
        or_zero (shootingMakes (last (shooting_actual td)))
      \<and> av_shootingCompletedAt (dv_actual (formatTrainingDayResponse td)) =
        completedAt (last (shooting_actual td)))"
proof -
  have p: "pv_shooting (dv_planned (formatTrainingDayResponse td)) =
        Some (shooting_slot_of (last (shooting_planned td)))"
    if "1 < length (shooting_planned td)"
    using that unfolding shooting_planned_def
    by (auto simp add: formatTrainingDayResponse_def fold_planned_step_shooting split: list.splits)
  have a: "av_shootingMakes (dv_actual (formatTrainingDayResponse td)) =
        or_zero (shootingMakes (last (shooting_actual td)))
      \<and> av_shootingCompletedAt (dv_actual (formatTrainingDayResponse td)) =
        completedAt (last (shooting_actual td))"
    if "1 < length (shooting_actual td)"
    using that fold_actual_step_shooting [of "actualActivities td" actual_init]
    unfolding shooting_actual_def
    by (auto simp add: formatTrainingDayResponse_def Let_def split: list.splits)
  from p a show ?thesis by blast
qed

theorem formatTrainingDayResponse_shooting_last_witness:
  "1 < length (shooting_planned dup_day)
   \<and> 1 < length (shooting_actual dup_day)
   \<and> pv_shooting (dv_planned (formatTrainingDayResponse dup_day)) =
        Some \<lparr>ss_id = 3, ss_time = ''18:00''\<rparr>
   \<and> av_shootingMakes (dv_actual (formatTrainingDayResponse dup_day)) = 250
   \<and> av_shootingCompletedAt (dv_actual (formatTrainingDayResponse dup_day)) = Some ''18:30''"
  using formatTrainingDayResponse_shooting_last [of dup_day]
  by (simp add: dup_day_def shooting_planned_def shooting_actual_def shooting_slot_of_def
      or_zero_def)

text \<open>
  Claim C2 as stated fails: \<open>dup_day\<close> holds two planned shooting records, and the planned
  shooting slot of the output is not the first of them.
\<close>

theorem formatTrainingDayResponse_shooting_not_first:
  "1 < length (shooting_planned dup_day)
   \<and> pv_shooting (dv_planned (formatTrainingDayResponse dup_day)) \<noteq>
        Some (shooting_slot_of (hd (shooting_planned dup_day)))"
  by (simp add: dup_day_def shooting_planned_def shooting_slot_of_def
      formatTrainingDayResponse_def planned_step_def planned_init_def)

section \<open>Dates\<close>

lemma day_ms_pos [simp]: "0 < day_ms"
  by (simp add: day_ms_def)

lemma iso_date_addDays [simp]: "iso_date (addDays t k) = iso_date t + k"
  by (simp add: iso_date_def addDays_def day_ms_def)

lemma iso_date_utc_midnight [simp]: "iso_date (utc_midnight d) = d"
  by (simp add: iso_date_def utc_midnight_def day_ms_def)




lemma local_date_utc: "local_date 0 t = iso_date t"
  by (simp add: local_date_def iso_date_def)

section \<open>Streak engine\<close>



lemma streak_loop_queries_run:
  "snd (streak_loop s userId today streak currentDate) =
     map (\<lambda>i. iso_date currentDate - int i)
       [0..<length (snd (streak_loop s userId today streak currentDate))]"
proof (induction s userId today streak currentDate rule: streak_loop.induct)
  case (1 s userId today streak currentDate)
  have shift: "map (\<lambda>i. iso_date currentDate - int i) [0..<Suc n] =
      iso_date currentDate # map (\<lambda>i. iso_date currentDate + - 1 - int i) [0..<n]" for n
    by (induction n) simp_all
  show ?case
    apply (subst (1 2) streak_loop.simps)
    using "1.IH" [OF refl refl]
    by (auto simp add: Let_def shift simp del: upt_Suc)
qed

lemma streak_loop_queries_nonempty:
  "snd (streak_loop s userId today streak currentDate) \<noteq> []"
  by (subst streak_loop.simps) (simp add: Let_def)









text \<open>East of UTC the walk starts at the date before today: in Tokyo, at 10:00 of day
  20000, the first date queried is 19999.\<close>

lemma calculateStreak_tokyo_starts_yesterday:
  "local_date tokyo clock_20000 = 20000
   \<and> hd (snd (calculateStreak_run year_store 7 clock_20000 tokyo)) = 19999"
proof -
  define q where "q = snd (calculateStreak_run year_store 7 clock_20000 tokyo)"
  have d: "iso_date (setHours0 tokyo clock_20000) = 19999"
    and l: "local_date tokyo clock_20000 = 20000"
    by (simp_all add: iso_date_def setHours0_def local_date_def clock_20000_def tokyo_def
        day_ms_def)
  have "q \<noteq> []"
    by (simp add: q_def calculateStreak_run_def Let_def streak_loop_queries_nonempty)
  moreover have "q = map (\<lambda>i. iso_date (setHours0 tokyo clock_20000) - int i) [0..<length q]"
    unfolding q_def calculateStreak_run_def Let_def by (rule streak_loop_queries_run)
  ultimately have "hd q = iso_date (setHours0 tokyo clock_20000)"
    by (metis diff_zero hd_conv_nth length_greater_0_conv nth_map_upt of_nat_0 plus_nat.add_0)
  with d l show ?thesis
    by (simp add: q_def)
qed



section \<open>Weekly statistics: the daily entries\<close>

lemma dailyStats_loop_eq:
  "i \<le> 7 \<Longrightarrow> dailyStats_loop tds tz w i acc = acc @ map (daily_entry tds tz w) [i..<7]"
proof (induction tds tz w i acc rule: dailyStats_loop.induct)
  case (1 tds tz w i acc)
  show ?case
  proof (cases "i < 7")
    case True
    then have "dailyStats_loop tds tz w i acc =
        dailyStats_loop tds tz w (Suc i) (acc @ [daily_entry tds tz w i])"
      by (subst dailyStats_loop.simps) simp
    also have "\<dots> = (acc @ [daily_entry tds tz w i]) @ map (daily_entry tds tz w) [Suc i..<7]"
      using "1.IH" True by simp
    also have "\<dots> = acc @ map (daily_entry tds tz w) [i..<7]"
      using True by (simp add: upt_conv_Cons del: upt_Suc)
    finally show ?thesis .
  next
    case False
    with "1.prems" have "i = 7" by simp
    then show ?thesis
      by (subst dailyStats_loop.simps) simp
  qed
qed










section \<open>Weekly statistics: the two percentages\<close>

subsection \<open>Bounds on the double arithmetic\<close>

lemma bitlen_nonneg: "0 \<le> bitlen n"
  by (induction n rule: bitlen.induct) (subst bitlen.simps, simp)

lemma bitlen_mono: "a \<le> b \<Longrightarrow> bitlen a \<le> bitlen b"
proof (induction b arbitrary: a rule: bitlen.induct)
  case (1 n)
  show ?case
  proof (cases "a \<le> 0")
    case True
    then have "bitlen a = 0" by (subst bitlen.simps) simp
    then show ?thesis by (simp add: bitlen_nonneg)
  next
    case False
    with "1.prems" have n: "\<not> n \<le> 0" by simp
    have "a div 2 \<le> n div 2"
      using "1.prems" by (simp add: zdiv_mono1)
    then have "bitlen (a div 2) \<le> bitlen (n div 2)"
      using "1.IH" n by simp
    then show ?thesis
      using False n by (subst (1 2) bitlen.simps) simp
  qed
qed

lemma bitlen_double: "0 < n \<Longrightarrow> bitlen (2 * n) = 1 + bitlen n"
  by (subst bitlen.simps) simp

lemma bitlen_128: "0 < n \<Longrightarrow> bitlen (128 * n) = 7 + bitlen n"
proof -
  assume n: "0 < n"
  have "128 * n = 2 * (2 * (2 * (2 * (2 * (2 * (2 * n))))))" by simp
  then show ?thesis
    using n by (simp only: bitlen_double)
qed

lemma pow2_pos: "0 < pow2 e"
  by (simp add: pow2_def)

lemma binade_le:
  assumes "0 < x" and "x \<le> 128"
  shows "binade x \<le> 7"
proof -
  obtain p q where pq: "quotient_of x = (p, q)"
    by (cases "quotient_of x")
  then have q: "0 < q" and x: "x = of_int p / of_int q"
    by (auto dest: quotient_of_denom_pos quotient_of_div)
  from assms(2) q have "of_int p \<le> (128 * of_int q :: rat)"
    unfolding x by (simp add: pos_divide_le_eq)
  then have "p \<le> 128 * q"
    by (metis of_int_le_iff of_int_mult of_int_numeral)
  then have "bitlen p \<le> 7 + bitlen q"
    using bitlen_mono [of p "128 * q"] bitlen_128 [OF q] by simp
  moreover have "\<bar>x\<bar> = x"
    using assms(1) by simp
  ultimately show ?thesis
    by (simp add: binade_def pq Let_def)
qed

lemma round_ties_even_le:
  assumes "r \<le> of_int n"
  shows "round_ties_even r \<le> n"
proof (cases "r = of_int n")
  case True
  then show ?thesis by (simp add: round_ties_even_def)
next
  case False
  with assms have "r < of_int n" by simp
  then have "\<lfloor>r\<rfloor> < n" by (simp add: floor_less_iff)
  then show ?thesis
    by (simp add: round_ties_even_def Let_def)
qed

lemma round_ties_even_nonneg: "0 \<le> r \<Longrightarrow> 0 \<le> round_ties_even r"
  by (simp add: round_ties_even_def Let_def)

lemma to_double_nonneg: "0 \<le> x \<Longrightarrow> 0 \<le> to_double x"
  by (simp add: to_double_def Let_def round_ties_even_nonneg pow2_pos less_imp_le)

lemma to_double_le:
  assumes "0 \<le> x" and "x \<le> of_int c" and "c \<le> 128"
  shows "to_double x \<le> of_int c"
proof (cases "x = 0")
  case True
  with assms show ?thesis by (simp add: to_double_def)
next
  case False
  with assms have x: "0 < x" "x \<le> 128"
    by auto
  define n where "n = nat (52 - binade x)"
  have sc: "pow2 (52 - binade x) = of_int (2 ^ n)"
    using binade_le [OF x] by (simp add: pow2_def n_def)
  have "x * of_int (2 ^ n) \<le> of_int (c * 2 ^ n)"
    using assms(2) by (simp add: mult_right_mono)
  then have "round_ties_even (x * of_int (2 ^ n)) \<le> c * 2 ^ n"
    by (rule round_ties_even_le)
  then have "(of_int (round_ties_even (x * of_int (2 ^ n))) :: rat) \<le> of_int (c * 2 ^ n)"
    by (simp only: of_int_le_iff)
  then have "(of_int (round_ties_even (x * of_int (2 ^ n))) :: rat) / of_int (2 ^ n) \<le> of_int c"
    by (simp add: pos_divide_le_eq)
  then show ?thesis
    using False by (simp add: to_double_def sc Let_def)
qed

lemma percentage_bounds:
  assumes "a \<le> b" and "0 < b"
  shows "0 \<le> Math_round (num_mul (num_div (of_nat a) (of_nat b)) 100)"
    and "Math_round (num_mul (num_div (of_nat a) (of_nat b)) 100) \<le> 100"
proof -
  define q where "q = num_div (of_nat a) (of_nat b)"
  have r: "0 \<le> (of_nat a / of_nat b :: rat)" "(of_nat a / of_nat b :: rat) \<le> of_int 1"
    using assms by simp_all
  have q0: "0 \<le> q" and q1: "q \<le> 1"
    using to_double_nonneg [OF r(1)] to_double_le [OF r] by (simp_all add: q_def num_div_def)
  have m: "0 \<le> q * 100" "q * 100 \<le> of_int 100"
    using q0 q1 by simp_all
  have p0: "0 \<le> num_mul q 100" and p1: "num_mul q 100 \<le> 100"
    using to_double_nonneg [OF m(1)] to_double_le [OF m] by (simp_all add: num_mul_def)
  show "0 \<le> Math_round (num_mul (num_div (of_nat a) (of_nat b)) 100)"
    using p0 by (simp add: Math_round_def q_def [symmetric])
  have "num_mul q 100 + 1 / 2 < 101"
    using p1 by simp
  then have "\<lfloor>num_mul q 100 + 1 / 2\<rfloor> < 101"
    by (simp add: floor_less_iff)
  then show "Math_round (num_mul (num_div (of_nat a) (of_nat b)) 100) \<le> 100"
    by (simp add: Math_round_def q_def [symmetric])
qed

subsection \<open>The rounding is to nearest\<close>

lemma pow2_powi: "pow2 e = 2 powi e"
  by (simp add: pow2_def power_int_def field_simps)

lemma bitlen_bounds:
  "0 < n \<Longrightarrow> 2 ^ nat (bitlen n - 1) \<le> n \<and> n < 2 ^ nat (bitlen n)"
proof (induction n rule: bitlen.induct)
  case (1 n)
  show ?case
  proof (cases "n = 1")
    case True
    have "bitlen 1 = 1"
      by (subst bitlen.simps, subst bitlen.simps) simp
    with True show ?thesis by simp
  next
    case False
    with "1.prems" have h: "0 < n div 2" by simp
    then have ih: "2 ^ nat (bitlen (n div 2) - 1) \<le> n div 2" "n div 2 < 2 ^ nat (bitlen (n div 2))"
      using "1.IH" "1.prems" by simp_all
    have pos: "0 < bitlen (n div 2)"
      using h by (subst bitlen.simps) (simp add: bitlen_nonneg add_pos_nonneg)
    have b: "bitlen n = 1 + bitlen (n div 2)"
      using "1.prems" by (subst bitlen.simps) simp
    have e1: "nat (bitlen n - 1) = Suc (nat (bitlen (n div 2) - 1))"
      using pos b by simp
    have e2: "nat (bitlen n) = Suc (nat (bitlen (n div 2)))"
      using pos b by simp
    have "2 * 2 ^ nat (bitlen (n div 2) - 1) \<le> 2 * (n div 2)"
      using ih(1) by simp
    also have "\<dots> \<le> n" by simp
    finally have l: "2 ^ nat (bitlen n - 1) \<le> n"
      by (simp add: e1)
    have "n div 2 + 1 \<le> 2 ^ nat (bitlen (n div 2))"
      using ih(2) by simp
    then have "2 * (n div 2) + 2 \<le> 2 * 2 ^ nat (bitlen (n div 2))"
      by simp
    moreover have "n < 2 * (n div 2) + 2" by presburger
    ultimately have "n < 2 ^ nat (bitlen n)"
      by (simp add: e2)
    with l show ?thesis by simp
  qed
qed


lemma binade_correct:
  assumes "x \<noteq> 0"
  shows "pow2 (binade x) \<le> \<bar>x\<bar> \<and> \<bar>x\<bar> < pow2 (binade x + 1)"
proof -
  obtain p q where pq: "quotient_of \<bar>x\<bar> = (p, q)"
    by (cases "quotient_of \<bar>x\<bar>")
  then have q: "0 < q" and x: "\<bar>x\<bar> = of_int p / of_int q"
    by (auto dest: quotient_of_denom_pos quotient_of_div)
  have "0 < \<bar>x\<bar>" using assms by simp
  with q have p: "0 < p"
    unfolding x by (simp add: zero_less_divide_iff)
  define a where "a = bitlen p"
  define b where "b = bitlen q"
  have "bitlen p = 1 + bitlen (p div 2)" and "bitlen q = 1 + bitlen (q div 2)"
    using p q by (subst bitlen.simps, simp)+
  then have a1: "1 \<le> a" and b1: "1 \<le> b"
    using bitlen_nonneg [of "p div 2"] bitlen_nonneg [of "q div 2"] by (simp_all add: a_def b_def)
  have pb: "2 ^ nat (a - 1) \<le> p" "p < 2 ^ nat a" and qb: "2 ^ nat (b - 1) \<le> q" "q < 2 ^ nat b"
    using bitlen_bounds [OF p] bitlen_bounds [OF q] by (simp_all add: a_def b_def)
  have cast: "(2::rat) powi k = of_int (2 ^ nat k)" if "0 \<le> k" for k
    using that by (simp add: power_int_def)
  have pr: "(2::rat) powi (a - 1) \<le> of_int p" "of_int p < (2::rat) powi a"
    and qr: "(2::rat) powi (b - 1) \<le> of_int q" "of_int q < (2::rat) powi b"
    using pb qb a1 b1 by (simp_all only: cast of_int_le_iff of_int_less_iff)
  have lower: "(2::rat) powi (a - b - 1) \<le> \<bar>x\<bar>"
  proof -
    have "(2::rat) powi (a - b - 1) = 2 powi ((a - 1) - b)"
      by (simp add: algebra_simps)
    also have "\<dots> = 2 powi (a - 1) / 2 powi b"
      by (rule power_int_diff) simp
    also have "\<dots> \<le> of_int p / of_int q"
      using pr(1) qr(2) p q by (intro frac_le) simp_all
    finally show ?thesis by (simp add: x)
  qed
  have upper: "\<bar>x\<bar> < (2::rat) powi (a - b + 1)"
  proof -
    have "of_int p / of_int q < (2::rat) powi a / 2 powi (b - 1)"
      using pr(2) qr(1) p q by (intro frac_less) simp_all
    also have "\<dots> = 2 powi (a - (b - 1))"
      by (rule power_int_diff [symmetric]) simp
    also have "\<dots> = 2 powi (a - b + 1)"
      by (simp add: algebra_simps)
    finally show ?thesis by (simp add: x)
  qed
  show ?thesis
    using lower upper
    by (simp add: binade_def pq Let_def a_def [symmetric] b_def [symmetric] pow2_powi)
qed

lemma round_ties_even_error: "\<bar>of_int (round_ties_even r) - r\<bar> \<le> 1 / 2"
proof -
  define f where "f = \<lfloor>r\<rfloor>"
  define d where "d = r - of_int f"
  have d: "0 \<le> d" "d < 1"
    unfolding d_def f_def by linarith+
  have r: "r = of_int f + d"
    by (simp add: d_def)
  have e: "round_ties_even r =
      (if d < 1 / 2 then f else if 1 / 2 < d then f + 1 else if even f then f else f + 1)"
    unfolding round_ties_even_def Let_def d_def f_def ..
  show ?thesis
    unfolding e using d by (auto simp add: r)
qed

text \<open>\<open>to_double\<close> rounds to nearest: the error is at most half a unit in the last place
  of the 53-bit significand.\<close>

lemma to_double_error:
  assumes "x \<noteq> 0"
  shows "\<bar>to_double x - x\<bar> \<le> pow2 (binade x - 53)"
proof -
  define sc where "sc = pow2 (52 - binade x)"
  have sc: "0 < sc" by (simp add: sc_def pow2_pos)
  have "\<bar>to_double x - x\<bar> = \<bar>of_int (round_ties_even (x * sc)) - x * sc\<bar> / sc"
    using assms sc by (simp add: to_double_def sc_def [symmetric] abs_if field_simps)
  also have "\<dots> \<le> (1 / 2) / sc"
    using sc round_ties_even_error [of "x * sc"] by (intro divide_right_mono) simp_all
  also have "\<dots> = pow2 (binade x - 53)"
  proof -
    have "(2::rat) powi (binade x - 53) = 2 powi (- 1 - (52 - binade x))"
      by (simp add: algebra_simps)
    also have "\<dots> = 2 powi (- 1) / 2 powi (52 - binade x)"
      by (rule power_int_diff) simp
    finally have "(2::rat) powi (binade x - 53) = 2 powi (- 1) / 2 powi (52 - binade x)" .
    then show ?thesis
      by (simp add: sc_def pow2_powi)
  qed
  finally show ?thesis .
qed

text \<open>The values of the doubles \<open>1 / 3\<close> and \<open>0.1\<close>, two ties, and the eight values of
  \<open>completionPercentage\<close>.\<close>

lemma to_double_examples:
  "to_double (1 / 3) = 6004799503160661 / 18014398509481984"
  "to_double (1 / 10) = 3602879701896397 / 36028797018963968"
  "to_double 9007199254740993 = 9007199254740992"
  "to_double 9007199254740995 = 9007199254740996"
  "map (\<lambda>c. Math_round (num_mul (num_div (of_int c) 7) 100)) [0, 1, 2, 3, 4, 5, 6, 7] =
     [0, 14, 29, 43, 57, 71, 86, 100]"
  by code_simp+

subsection \<open>The two counters\<close>

lemma fold_planned_count:
  "fold (planned_count day) ps cnt =
     (fst cnt + length (filter (\<lambda>p. on_time p (actualActivities day)) ps), snd cnt + length ps)"
  by (induction ps arbitrary: cnt) (simp_all add: planned_count_def Let_def)

lemma fold_day_count:
  "fold day_count days cnt =
     (fst cnt + count_on_time on_time days, snd cnt + count_planned days)"
  by (induction days arbitrary: cnt)
    (simp_all add: day_count_def fold_planned_count count_on_time_def count_planned_def)

lemma count_on_time_le: "count_on_time P days \<le> count_planned days"
  unfolding count_on_time_def count_planned_def
  by (induction days) (simp_all add: add_mono)

text \<open>
  Claim C10. For every store, instant and zone, \<open>completionPercentage\<close> and \<open>consistencyScore\<close> of the
  weekly response are integers between 0 and 100: the count of completed days never
  exceeds 7, and the on-time counter never exceeds the counter of planned activities.
\<close>

theorem weeklyStats_percentages:
  "0 \<le> completionPercentage (weeklyStats s userId clock tz)
   \<and> completionPercentage (weeklyStats s userId clock tz) \<le> 100
   \<and> 0 \<le> consistencyScore (weeklyStats s userId clock tz)
   \<and> consistencyScore (weeklyStats s userId clock tz) \<le> 100
   \<and> length (filter ds_completed (dailyStats (weeklyStats s userId clock tz))) \<le> 7
   \<and> fst (fold day_count (weekly_trainingDays s userId clock tz) (0, 0))
       \<le> snd (fold day_count (weekly_trainingDays s userId clock tz) (0, 0))"
proof -
  let ?w = "addDays (setHours0 tz clock) (- 6)"
  let ?days = "findMany_between s userId ?w (setHours0 tz clock)"
  let ?daily = "dailyStats_loop ?days tz ?w 0 []"
  have days: "weekly_trainingDays s userId clock tz = ?days"
    by (simp add: weekly_trainingDays_def Let_def)
  have "length ?daily = 7"
    by (simp add: dailyStats_loop_eq)
  then have seven: "length (filter ds_completed ?daily) \<le> 7"
    by (metis length_filter_le)
  have cp: "0 \<le> Math_round (num_mul (num_div (of_nat (length (filter ds_completed ?daily))) 7) 100)
      \<and> Math_round (num_mul (num_div (of_nat (length (filter ds_completed ?daily))) 7) 100) \<le> 100"
    using percentage_bounds [of "length (filter ds_completed ?daily)" 7] seven by simp
  have cnt: "fold day_count ?days (0, 0) = (count_on_time on_time ?days, count_planned ?days)"
    by (simp add: fold_day_count)
  have le: "count_on_time on_time ?days \<le> count_planned ?days"
    by (rule count_on_time_le)
  have cs: "0 \<le> Math_round (num_mul (num_div (of_nat (count_on_time on_time ?days))
                (of_nat (count_planned ?days))) 100)
      \<and> Math_round (num_mul (num_div (of_nat (count_on_time on_time ?days))
                (of_nat (count_planned ?days))) 100) \<le> 100"
    if "0 < count_planned ?days"
    using percentage_bounds [OF le that] by simp
  show ?thesis
    using seven cp cs le
    by (simp add: weeklyStats_def Let_def cnt days)
qed

theorem weeklyStats_percentages_witness:
  "0 \<le> completionPercentage (weeklyStats scenario_store 7 clock_19737 0)
   \<and> completionPercentage (weeklyStats scenario_store 7 clock_19737 0) \<le> 100
   \<and> 0 \<le> consistencyScore (weeklyStats scenario_store 7 clock_19737 0)
   \<and> consistencyScore (weeklyStats scenario_store 7 clock_19737 0) \<le> 100"
  using weeklyStats_percentages [of scenario_store 7 clock_19737 0] by simp

section \<open>Weekly statistics: the consistency score\<close>

lemma count_on_time_cong:
  assumes "\<And>d p. d \<in> set days \<Longrightarrow> p \<in> set (plannedActivities d) \<Longrightarrow>
             P p (actualActivities d) = Q p (actualActivities d)"
  shows "count_on_time P days = count_on_time Q days"
proof -
  have "filter (\<lambda>p. P p (actualActivities d)) (plannedActivities d) =
        filter (\<lambda>p. Q p (actualActivities d)) (plannedActivities d)" if "d \<in> set days" for d
    using assms [OF that] by (intro filter_cong) auto
  then show ?thesis
    unfolding count_on_time_def by (simp cong: map_cong)
qed

lemma is_digit_not_colon: "is_digit c \<Longrightarrow> c \<noteq> CHR '':''"
  by (auto simp add: is_digit_def)

lemma js_Number_two_digits:
  "is_digit a \<Longrightarrow> is_digit b \<Longrightarrow> js_Number [a, b] = Some (10 * digit_val a + digit_val b)"
  by (simp add: js_Number_def)

lemma is_hhmm_time_minutes:
  assumes "is_hhmm t"
  shows "time_minutes t = Some (hhmm_minutes t)" and "t \<noteq> []"
proof -
  from assms obtain h1 h2 m1 m2 where t: "t = [h1, h2, CHR '':'', m1, m2]"
    and d: "is_digit h1" "is_digit h2" "is_digit m1" "is_digit m2"
    by (auto simp add: is_hhmm_def split: list.splits)
  have "split_on CHR '':'' t = [[h1, h2], [m1, m2]]"
    using d by (simp add: t is_digit_not_colon)
  then show "time_minutes t = Some (hhmm_minutes t)"
    using d by (simp add: time_minutes_def js_Number_two_digits hhmm_minutes_def t)
  show "t \<noteq> []"
    by (simp add: t)
qed

lemma on_time_first_on_time:
  assumes "is_hhmm (plannedTime p)"
    and "list_all (\<lambda>a. case completedAt a of None \<Rightarrow> True | Some c \<Rightarrow> is_hhmm c) actuals"
  shows "on_time p actuals = first_on_time p actuals"
proof -
  have same: "(\<lambda>a. if pa_type p = ''shooting'' then aa_type a = ''shooting''
                      else aa_type a = pa_type p) = (\<lambda>a. aa_type a = pa_type p)"
    by auto
  show ?thesis
  proof (cases "find (\<lambda>a. aa_type a = pa_type p) actuals")
    case None
    then show ?thesis
      by (simp add: on_time_def first_on_time_def same)
  next
    case (Some a)
    then have "a \<in> set actuals"
      by (auto simp add: find_Some_iff)
    with assms(2) have c: "case completedAt a of None \<Rightarrow> True | Some c \<Rightarrow> is_hhmm c"
      by (simp add: list_all_iff)
    show ?thesis
    proof (cases "completedAt a")
      case None
      with Some show ?thesis
        by (simp add: on_time_def first_on_time_def same within_30_def)
    next
      case (Some t)
      with c have "is_hhmm t" by simp
      with assms(1) \<open>find (\<lambda>a. aa_type a = pa_type p) actuals = Some a\<close> Some show ?thesis
        by (simp add: on_time_def first_on_time_def same within_30_def is_hhmm_time_minutes)
    qed
  qed
qed

lemma weekly_trainingDays_utc:
  "weekly_trainingDays s userId clock 0 = window_days s userId (local_date 0 clock)"
proof -
  have "(addDays (setHours0 0 clock) (- 6) \<le> utc_midnight d \<and> utc_midnight d \<le> setHours0 0 clock)
      = (local_date 0 clock - 6 \<le> d \<and> d \<le> local_date 0 clock)" for d
  proof -
    define T where "T = clock div day_ms"
    have "(T * 86400000 - 518400000 \<le> d * 86400000) = (T - 6 \<le> d)"
      by linarith
    then show ?thesis
      by (simp add: addDays_def setHours0_def utc_midnight_def local_date_def T_def [symmetric])
        (simp add: day_ms_def)
  qed
  then show ?thesis
    by (simp add: weekly_trainingDays_def window_days_def findMany_between_def Let_def)
qed

text \<open>
  Claim C3, as amended. The weekly \<open>consistencyScore\<close> is computed from the training days
  that the weekly query returns; on a server whose time zone is UTC these are the user's
  days of the 7-day window, today and the 6 days before. If the planned and completion
  times of these days are \<open>HH:MM\<close> strings, the score is
  \<open>Math.round((onTime / totalPlanned) * 100)\<close>, evaluated in double arithmetic, where a
  planned activity counts as on time iff the first actual activity of its type on the same
  day has a completion time at most 30 minutes from the planned time; the score is exactly
  0 when the days hold no planned activity.
\<close>

theorem weeklyStats_consistencyScore:
  assumes "hhmm_times (weekly_trainingDays s userId clock tz)"
  shows "consistencyScore (weeklyStats s userId clock tz) =
     (let days = weekly_trainingDays s userId clock tz;
          onTime = count_on_time first_on_time days;
          totalPlanned = count_planned days
      in if totalPlanned = 0 then 0
         else Math_round (num_mul (num_div (of_nat onTime) (of_nat totalPlanned)) 100))
    \<and> (tz = 0 \<longrightarrow>
         weekly_trainingDays s userId clock tz = window_days s userId (local_date tz clock))"
proof -
  let ?days = "weekly_trainingDays s userId clock tz"
  have "count_on_time on_time ?days = count_on_time first_on_time ?days"
  proof (rule count_on_time_cong)
    fix d p
    assume "d \<in> set ?days" and "p \<in> set (plannedActivities d)"
    with assms show "on_time p (actualActivities d) = first_on_time p (actualActivities d)"
      by (intro on_time_first_on_time) (auto simp add: hhmm_times_def list_all_iff)
  qed
  moreover have "fold day_count ?days (0, 0) = (count_on_time on_time ?days, count_planned ?days)"
    by (simp add: fold_day_count)
  moreover have "consistencyScore (weeklyStats s userId clock tz) =
      (let cnt = fold day_count ?days (0, 0) in
       if snd cnt > 0
       then Math_round (num_mul (num_div (of_nat (fst cnt)) (of_nat (snd cnt))) 100) else 0)"
    by (simp add: weeklyStats_def weekly_trainingDays_def Let_def)
  ultimately show ?thesis
    using weekly_trainingDays_utc [of s userId clock] by (auto simp add: Let_def)
qed

theorem weeklyStats_consistencyScore_witness:
  "hhmm_times (weekly_trainingDays scenario_store 7 clock_19737 0)
   \<and> weekly_trainingDays scenario_store 7 clock_19737 0 =
       window_days scenario_store 7 (local_date 0 clock_19737)
   \<and> consistencyScore (weeklyStats scenario_store 7 clock_19737 0) = 100"
proof -
  have h: "hhmm_times (weekly_trainingDays scenario_store 7 clock_19737 0)"
    by code_simp
  have v: "(let days = weekly_trainingDays scenario_store 7 clock_19737 0;
          onTime = count_on_time first_on_time days;
          totalPlanned = count_planned days
      in if totalPlanned = 0 then 0
         else Math_round (num_mul (num_div (of_nat onTime) (of_nat totalPlanned)) 100)) = 100"
    by code_simp
  from weeklyStats_consistencyScore [OF h] v h show ?thesis by simp
qed

text \<open>
  Claim C3 as stated fails: in \<open>cross_store\<close>, on a server in UTC, the planned pickup run
  has an actual pickup run within 30 minutes (the second one), so the claim gives the
  score 100; the code compares with the first one and gives 0.
\<close>

theorem weeklyStats_consistencyScore_first_match:
  "consistencyScore (weeklyStats cross_store 7 clock_19737 0) = 0
   \<and> claimed_consistencyScore (window_days cross_store 7 (local_date 0 clock_19737)) = 100"
  by code_simp

text \<open>Off UTC the query range, from one local midnight to another, misses a day of the
  window: in Tokyo, at 10:00 of day 19737, the day of 19737 is not returned, and the
  scenario's score is 0.\<close>

lemma weeklyStats_tokyo_misses_today:
  "local_date tokyo clock_19737 = 19737
   \<and> weekly_trainingDays scenario_store 7 clock_19737 tokyo = []
   \<and> consistencyScore (weeklyStats scenario_store 7 clock_19737 tokyo) = 0"
  by code_simp

text \<open>Where \<open>100 \<times> onTime / totalPlanned\<close> is a tie, the double product can fall below
  it: 23 of 40 gives 57, and 57.5 rounds to 58.\<close>

lemma consistency_rounding_23_of_40:
  "Math_round (num_mul (num_div 23 40) 100) = 57 \<and> \<lfloor>100 * (23::rat) / 40 + 1 / 2\<rfloor> = 58"
  by code_simp

section \<open>Fresh identifiers\<close>

text \<open>\<open>store_ok\<close> holds of the empty store and is kept by every route, so it holds of
  every store the routes can reach.\<close>

lemma store_ok_updates:
  "store_ok s \<Longrightarrow> i < nextId s \<Longrightarrow> store_ok (plannedActivity_create s i ty time loc nm)"
  "store_ok s \<Longrightarrow> store_ok (plannedActivity_deleteMany s i ty)"
  "store_ok s \<Longrightarrow> store_ok (plannedActivity_delete s j)"
  "store_ok s \<Longrightarrow> i < nextId s \<Longrightarrow> store_ok (actualActivity_create s i ty c m)"
  "store_ok s \<Longrightarrow> store_ok (actualActivity_delete s j)"
  "store_ok s \<Longrightarrow> store_ok (actualActivity_update s j c m)"
  "store_ok s \<Longrightarrow> store_ok (trainingDay_update s j g)"
  by (auto simp add: store_ok_def list_all_iff plannedActivity_create_def
      plannedActivity_deleteMany_def plannedActivity_delete_def actualActivity_create_def
      actualActivity_delete_def actualActivity_update_def trainingDay_update_def)

lemma getOrCreate_ok:
  assumes "store_ok s"
  shows "store_ok (snd (getOrCreateTrainingDay s userId d))"
    and "td_id (fst (getOrCreateTrainingDay s userId d)) < nextId (snd (getOrCreateTrainingDay s userId d))"
proof -
  obtain s' t where g: "getOrCreateTrainingDay s userId d = (include_activities s' t, s')"
    and u: "findUnique_userId_date s' userId d = Some t" and ok: "store_ok s'"
    using getOrCreate_cases [OF assms, of userId d] by metis
  from u have "t \<in> set (tbl_trainingDay s')"
    by (auto simp add: findUnique_userId_date_def find_Some_iff)
  with ok have "td_id t < nextId s'"
    by (simp add: store_ok_def list_all_iff)
  with g ok show "store_ok (snd (getOrCreateTrainingDay s userId d))"
    and "td_id (fst (getOrCreateTrainingDay s userId d)) < nextId (snd (getOrCreateTrainingDay s userId d))"
    by simp_all
qed

lemma handle_store_ok:
  assumes "store_ok s"
  shows "store_ok (snd (handle s userId now clock tz r))"
proof -
  note g = getOrCreate_ok [OF assms]
  show ?thesis
  proof (cases r)
    case (GetDay d)
    then show ?thesis
      using g [of userId d] by (simp add: get_day_def split_beta)
  next
    case (ListDays lo hi)
    then show ?thesis
      using assms by (simp add: list_days_def split: option.splits)
  next
    case (PutDay d v)
    then show ?thesis
      using g [of userId d] by (simp add: put_day_def split_beta Let_def store_ok_updates)
  next
    case (AddPlanned d b)
    have "nextId (plannedActivity_deleteMany s' i ty) = nextId s'" for s' i ty
      by (simp add: plannedActivity_deleteMany_def)
    then show ?thesis
      using AddPlanned assms g [of userId d]
      by (simp add: add_planned_def split_beta Let_def store_ok_updates split: option.splits)
  next
    case (DeletePlanned d i)
    then show ?thesis
      using assms by (simp add: delete_planned_def Let_def store_ok_updates split: option.splits)
  next
    case (LogActual d b)
    then show ?thesis
      using assms g [of userId d]
      by (simp add: log_actual_def split_beta Let_def store_ok_updates split: option.splits)
  next
    case (UpdateActual d i b)
    then show ?thesis
      using assms by (simp add: update_actual_def Let_def store_ok_updates split: option.splits)
  next
    case (QuickShooting d b)
    then show ?thesis
      using assms g [of userId d]
      by (simp add: quick_shooting_def split_beta Let_def store_ok_updates split: option.splits)
  next
    case GetStreak
    then show ?thesis
      using assms by (simp add: stats_streak_def)
  next
    case GetSummary
    then show ?thesis
      using assms by (simp add: stats_summary_def Let_def)
  next
    case GetWeekly
    then show ?thesis
      using assms by (simp add: stats_weekly_def)
  qed
qed

lemma empty_store_ok:
  "store_ok \<lparr>tbl_trainingDay = [], tbl_plannedActivity = [], tbl_actualActivity = [], nextId = n\<rparr>"
  by (simp add: store_ok_def)

section \<open>Training routes: not-found responses\<close>

text \<open>
  Claim C9. For the activity-deletion and the activity-update request, an activity id
  that does not exist and an activity id whose day belongs to another user get the same
  response, status 404 with the body \<open>Activity not found\<close>, and the store is left as
  it was.
\<close>

theorem activity_not_found:
  "(find (\<lambda>p. pa_id p = i) (tbl_plannedActivity s) = None \<longrightarrow>
      delete_planned s userId d i = ((404, Error ''Activity not found''), s))
   \<and> (\<forall>a t. find (\<lambda>p. pa_id p = i) (tbl_plannedActivity s) = Some a
          \<and> findUnique_day s (pa_trainingDayId a) = Some t \<and> td_userId t \<noteq> userId \<longrightarrow>
      delete_planned s userId d i = ((404, Error ''Activity not found''), s))
   \<and> (find (\<lambda>a. aa_id a = i) (tbl_actualActivity s) = None \<longrightarrow>
      update_actual s userId d i b = ((404, Error ''Activity not found''), s))
   \<and> (\<forall>a t. find (\<lambda>a. aa_id a = i) (tbl_actualActivity s) = Some a
          \<and> findUnique_day s (aa_trainingDayId a) = Some t \<and> td_userId t \<noteq> userId \<longrightarrow>
      update_actual s userId d i b = ((404, Error ''Activity not found''), s))"
  by (simp add: delete_planned_def update_actual_def)

theorem activity_not_found_witness:
  "find (\<lambda>p. pa_id p = 99) (tbl_plannedActivity cross_store) = None
   \<and> find (\<lambda>p. pa_id p = 2) (tbl_plannedActivity cross_store) \<noteq> None
   \<and> delete_planned cross_store 8 19737 99 = ((404, Error ''Activity not found''), cross_store)
   \<and> delete_planned cross_store 8 19737 2 = ((404, Error ''Activity not found''), cross_store)
   \<and> update_actual cross_store 8 19737 99 \<lparr>ub_completedAt = None, ub_shootingMakes = Some 5\<rparr>
       = ((404, Error ''Activity not found''), cross_store)
   \<and> update_actual cross_store 8 19737 3 \<lparr>ub_completedAt = None, ub_shootingMakes = Some 5\<rparr>
       = ((404, Error ''Activity not found''), cross_store)"
proof -
  have p: "find (\<lambda>p. pa_id p = 2) (tbl_plannedActivity cross_store) = Some (hd (tbl_plannedActivity cross_store))"
    and a: "find (\<lambda>a. aa_id a = 3) (tbl_actualActivity cross_store) = Some (hd (tbl_actualActivity cross_store))"
    and t: "findUnique_day cross_store 1 = Some (hd (tbl_trainingDay cross_store))"
    and n: "find (\<lambda>p. pa_id p = 99) (tbl_plannedActivity cross_store) = None"
           "find (\<lambda>a. aa_id a = 99) (tbl_actualActivity cross_store) = None"
    by (simp_all add: cross_store_def findUnique_day_def)
  have o: "pa_trainingDayId (hd (tbl_plannedActivity cross_store)) = 1"
    "aa_trainingDayId (hd (tbl_actualActivity cross_store)) = 1"
    "td_userId (hd (tbl_trainingDay cross_store)) \<noteq> 8"
    by (simp_all add: cross_store_def)
  show ?thesis
    using activity_not_found [of 99 cross_store 8 19737 "\<lparr>ub_completedAt = None, ub_shootingMakes = Some 5\<rparr>"]
      activity_not_found [of 2 cross_store 8 19737 "\<lparr>ub_completedAt = None, ub_shootingMakes = Some 5\<rparr>"]
      activity_not_found [of 3 cross_store 8 19737 "\<lparr>ub_completedAt = None, ub_shootingMakes = Some 5\<rparr>"]
      p a t n o
    by simp
qed

section \<open>Training routes: the quick shooting update\<close>

text \<open>
  Claim C6. For every call of the quick shooting-update route with a number of makes, on a
  store whose identifiers are fresh: if \<open>makes \<ge> 200\<close> and neither the day's shooting
  activity has a completion time nor the request provides one, the stored completion time
  becomes the current time of day; in every other case nothing is stamped, and the
  stored completion time is the provided one if there is one, else the one stored before.
\<close>

theorem quick_shooting_completedAt:
  assumes "store_ok s" and "sb_makes b = Some makes"
  shows "actuals_of_type (snd (quick_shooting s userId now d b)) userId d ''shooting'' \<noteq> []
    \<and> stored_completedAt (snd (quick_shooting s userId now d b)) userId d =
       (if 200 \<le> makes \<and> \<not> truthy (stored_completedAt s userId d) \<and> \<not> truthy (sb_completedAt b)
        then Some now
        else (case sb_completedAt b of Some c \<Rightarrow> Some c | None \<Rightarrow> stored_completedAt s userId d))"
proof -
  obtain s1 t where g: "getOrCreateTrainingDay s userId d = (include_activities s1 t, s1)"
    and u1: "findUnique_userId_date s1 userId d = Some t"
    and same: "actuals_of_type s1 userId d ''shooting'' = actuals_of_type s userId d ''shooting''"
    using getOrCreate_cases [OF assms(1), of userId d] by metis
  let ?P = "\<lambda>a. aa_trainingDayId a = td_id t \<and> aa_type a = ''shooting''"
  have ao: "actuals_of_type s userId d ''shooting'' = filter ?P (tbl_actualActivity s1)"
    using u1 same by (simp add: actuals_of_type_def)
  show ?thesis
  proof (cases "filter ?P (tbl_actualActivity s1)")
    case Nil
    then have f: "actualActivity_findFirst s1 (td_id t) ''shooting'' = None"
      by (simp add: actualActivity_findFirst_def find_filter)
    have st: "stored_completedAt s userId d = None"
      by (simp add: stored_completedAt_def ao Nil)
    define c where "c = (if 200 \<le> makes \<and> \<not> truthy (sb_completedAt b) then Some now else sb_completedAt b)"
    have q: "snd (quick_shooting s userId now d b) =
        actualActivity_create s1 (td_id t) ''shooting'' c (Some makes)"
      using assms(2) by (simp add: quick_shooting_def g f Let_def c_def truthy_def)
    have u: "findUnique_userId_date (actualActivity_create s1 (td_id t) ''shooting'' c (Some makes)) userId d
        = Some t"
      using u1 by (simp add: findUnique_userId_date_def actualActivity_create_def)
    have a: "actuals_of_type (snd (quick_shooting s userId now d b)) userId d ''shooting'' =
        [\<lparr>aa_id = nextId s1, aa_trainingDayId = td_id t, aa_type = ''shooting'',
          completedAt = c, shootingMakes = Some makes\<rparr>]"
      using Nil by (simp only: q actuals_of_type_def u option.case) (simp add: actualActivity_create_def)
    show ?thesis
      by (simp add: a stored_completedAt_def [of "snd _"] st c_def truthy_def split: option.splits)
  next
    case (Cons a0 rest)
    then have f: "actualActivity_findFirst s1 (td_id t) ''shooting'' = Some a0"
      by (simp add: actualActivity_findFirst_def find_filter)
    have st: "stored_completedAt s userId d = completedAt a0"
      by (simp add: stored_completedAt_def ao Cons)
    define c where "c = nullish (if 200 \<le> makes \<and> \<not> truthy (completedAt a0) \<and> \<not> truthy (sb_completedAt b)
                        then Some now else sb_completedAt b) (completedAt a0)"
    have q: "snd (quick_shooting s userId now d b) = actualActivity_update s1 (aa_id a0) c (Some makes)"
      using assms(2) by (simp add: quick_shooting_def g f Let_def c_def)
    have u: "findUnique_userId_date (actualActivity_update s1 (aa_id a0) c (Some makes)) userId d = Some t"
      using u1 by (simp add: findUnique_userId_date_def actualActivity_update_def)
    let ?f = "\<lambda>a. if aa_id a = aa_id a0 then a\<lparr>completedAt := c, shootingMakes := Some makes\<rparr> else a"
    have "filter ?P (map ?f (tbl_actualActivity s1)) = map ?f (filter ?P (tbl_actualActivity s1))"
      by (rule filter_map_update) simp
    then have a: "actuals_of_type (snd (quick_shooting s userId now d b)) userId d ''shooting'' =
        a0\<lparr>completedAt := c, shootingMakes := Some makes\<rparr> # map ?f rest"
      by (simp only: q actuals_of_type_def u option.case) (simp add: actualActivity_update_def Cons)
    show ?thesis
      by (simp add: a stored_completedAt_def [of "snd _"] st c_def nullish_def split: option.splits)
  qed
qed

theorem quick_shooting_completedAt_witness:
  "store_ok break_store
   \<and> stored_completedAt break_store 7 19735 = None
   \<and> stored_completedAt
        (snd (quick_shooting break_store 7 ''18:45'' 19735 \<lparr>sb_makes = Some 200, sb_completedAt = None\<rparr>))
        7 19735 = Some ''18:45''
   \<and> stored_completedAt break_store 7 19736 = Some ''18:10''
   \<and> stored_completedAt
        (snd (quick_shooting break_store 7 ''18:45'' 19736 \<lparr>sb_makes = Some 230, sb_completedAt = None\<rparr>))
        7 19736 = Some ''18:10''"
proof -
  have ok: "store_ok break_store"
    by (simp add: store_ok_def break_store_def)
  have s: "stored_completedAt break_store 7 19735 = None"
    "stored_completedAt break_store 7 19736 = Some ''18:10''"
    by (simp_all add: stored_completedAt_def actuals_of_type_def findUnique_userId_date_def
        break_store_def)
  show ?thesis
    using quick_shooting_completedAt [OF ok, of "\<lparr>sb_makes = Some 200, sb_completedAt = None\<rparr>" 200 7 "''18:45''" 19735]
      quick_shooting_completedAt [OF ok, of "\<lparr>sb_makes = Some 230, sb_completedAt = None\<rparr>" 230 7 "''18:45''" 19736]
      ok s
    by (simp add: truthy_def)
qed

section \<open>Training routes: toggling a fixed activity\<close>

text \<open>
  Claim C8. On a store whose identifiers are fresh and in which the user's day holds no
  actual activity of a fixed type (\<open>coach_skills\<close>, \<open>coach_weights\<close> or \<open>varsity\<close>),
  logging that type twice in a row gives back that state: after the first call the day
  holds exactly one activity of the type, after the second it holds none, and the table
  of actual activities is the one before the two calls.
\<close>

theorem log_actual_toggle_twice:
  assumes "store_ok s"
    and "ty \<in> set [''coach_skills'', ''coach_weights'', ''varsity'']"
    and "ab_type b1 = Some ty" and "ab_type b2 = Some ty"
    and "actuals_of_type s userId d ty = []"
  shows "length (actuals_of_type (snd (log_actual s userId now1 d b1)) userId d ty) = 1
    \<and> actuals_of_type (snd (log_actual (snd (log_actual s userId now1 d b1)) userId now2 d b2))
         userId d ty = []
    \<and> tbl_actualActivity (snd (log_actual (snd (log_actual s userId now1 d b1)) userId now2 d b2))
       = tbl_actualActivity s"
proof -
  have ty: "ty \<noteq> []"
    "ty \<in> set [''shooting'', ''pickup'', ''custom'', ''coach_skills'', ''coach_weights'', ''varsity'']"
    using assms(2) by auto
  obtain s' t where g: "getOrCreateTrainingDay s userId d = (include_activities s' t, s')"
    and u: "findUnique_userId_date s' userId d = Some t"
    and tbl: "tbl_actualActivity s' = tbl_actualActivity s"
    and ok: "store_ok s'"
    and same: "actuals_of_type s' userId d ty = actuals_of_type s userId d ty"
    using getOrCreate_cases [OF assms(1), of userId d] by metis
  let ?P = "\<lambda>a. aa_trainingDayId a = td_id t \<and> aa_type a = ty"
  define new where "new = \<lparr>aa_id = nextId s', aa_trainingDayId = td_id t, aa_type = ty,
      completedAt = Some (or_else (ab_completedAt b1) now1), shootingMakes = None\<rparr>"
  define s1 where "s1 = s'\<lparr>tbl_actualActivity := tbl_actualActivity s @ [new], nextId := Suc (nextId s')\<rparr>"
  have none: "filter ?P (tbl_actualActivity s) = []"
    using assms(5) same u by (simp add: actuals_of_type_def tbl)
  then have f: "actualActivity_findFirst s' (td_id t) ty = None"
    by (simp add: actualActivity_findFirst_def find_filter tbl)
  have first: "snd (log_actual s userId now1 d b1) = s1"
    using assms(2) ty
    by (simp only: log_actual_def assms(3) option.case g split_conv Let_def f if_False if_True
        not_True_eq_False not_not snd_conv)
      (simp add: f actualActivity_create_def s1_def new_def tbl)
  have u1: "findUnique_userId_date s1 userId d = Some t"
    using u by (simp add: findUnique_userId_date_def s1_def)
  have a1: "actuals_of_type s1 userId d ty = [new]"
    using none by (simp add: actuals_of_type_def u1) (simp add: s1_def new_def)
  have g1: "getOrCreateTrainingDay s1 userId d = (include_activities s1 t, s1)"
    using u1 by (rule getOrCreate_existing)
  have f1: "actualActivity_findFirst s1 (td_id t) ty = Some new"
    using none by (simp add: actualActivity_findFirst_def find_filter s1_def) (simp add: new_def)
  have old: "filter (\<lambda>a. aa_id a \<noteq> nextId s') (tbl_actualActivity s) = tbl_actualActivity s"
    using ok by (auto simp add: store_ok_def list_all_iff tbl filter_id_conv)
  have second: "snd (log_actual s1 userId now2 d b2) = s1\<lparr>tbl_actualActivity := tbl_actualActivity s\<rparr>"
    using assms(2) ty
    by (simp only: log_actual_def assms(4) option.case g1 split_conv Let_def f1 if_False if_True
        not_True_eq_False not_not snd_conv)
      (simp add: f1 actualActivity_delete_def, simp add: s1_def old new_def)
  have u2: "findUnique_userId_date (s1\<lparr>tbl_actualActivity := tbl_actualActivity s\<rparr>) userId d = Some t"
    using u1 by (simp add: findUnique_userId_date_def)
  have a2: "actuals_of_type (s1\<lparr>tbl_actualActivity := tbl_actualActivity s\<rparr>) userId d ty = []"
    using none by (simp add: actuals_of_type_def u2)
  show ?thesis
    by (simp add: first second a1 a2)
qed

theorem log_actual_toggle_twice_witness:
  "store_ok scenario_store
   \<and> actuals_of_type scenario_store 7 19737 ''varsity'' = []
   \<and> length (actuals_of_type
        (snd (log_actual scenario_store 7 ''19:00'' 19737
               \<lparr>ab_type = Some ''varsity'', ab_completedAt = None, ab_shootingMakes = None\<rparr>))
        7 19737 ''varsity'') = 1
   \<and> tbl_actualActivity
        (snd (log_actual
               (snd (log_actual scenario_store 7 ''19:00'' 19737
                      \<lparr>ab_type = Some ''varsity'', ab_completedAt = None, ab_shootingMakes = None\<rparr>))
               7 ''19:05'' 19737
               \<lparr>ab_type = Some ''varsity'', ab_completedAt = None, ab_shootingMakes = None\<rparr>))
       = tbl_actualActivity scenario_store"
proof -
  let ?b = "\<lparr>ab_type = Some ''varsity'', ab_completedAt = None, ab_shootingMakes = None\<rparr>"
  have ok: "store_ok scenario_store"
    by (simp add: store_ok_def scenario_store_def)
  have none: "actuals_of_type scenario_store 7 19737 ''varsity'' = []"
    by (simp add: actuals_of_type_def findUnique_userId_date_def scenario_store_def)
  have ty: "''varsity'' \<in> set [''coach_skills'', ''coach_weights'', ''varsity'']"
    by simp
  have b: "ab_type ?b = Some ''varsity''"
    by simp
  show ?thesis
    using log_actual_toggle_twice [OF ok ty b b none, of "''19:00''" "''19:05''"] ok none
    by simp
qed


section \<open>Training routes: the single planned shooting slot\<close>

lemma getOrCreate_planned:
  "tbl_plannedActivity (snd (getOrCreateTrainingDay s userId d)) = tbl_plannedActivity s"
  by (simp add: getOrCreateTrainingDay_def split_beta split: option.splits)

text \<open>The planned table after a successful \<open>POST /:date/planned\<close>, and the response
  to a body that is not valid.\<close>

lemma add_planned_tbl:
  assumes "pb_type b = Some ty" and "pb_time b = Some time" and "ty \<noteq> []" and "time \<noteq> []"
    and "ty \<in> set [''shooting'', ''pickup'', ''custom'']"
  shows "tbl_plannedActivity (snd (add_planned s userId d b)) =
     (if ty = ''shooting''
      then filter (\<lambda>p. \<not> (pa_trainingDayId p = td_id (fst (getOrCreateTrainingDay s userId d)) \<and>
                           pa_type p = ''shooting'')) (tbl_plannedActivity s)
      else tbl_plannedActivity s) @
     [\<lparr>pa_id = nextId (snd (getOrCreateTrainingDay s userId d)),
       pa_trainingDayId = td_id (fst (getOrCreateTrainingDay s userId d)),
       pa_type = ty, plannedTime = time,
       location = (if ty = ''pickup'' then pb_location b else None),
       pa_name = (if ty = ''custom'' then pb_name b else None)\<rparr>]"
  using assms getOrCreate_planned [of s userId d]
  by (simp add: add_planned_def split_beta Let_def plannedActivity_create_def
      plannedActivity_deleteMany_def)

lemma add_planned_invalid:
  assumes "\<not> (\<exists>ty time. pb_type b = Some ty \<and> pb_time b = Some time \<and> ty \<noteq> [] \<and> time \<noteq> []
      \<and> ty \<in> set [''shooting'', ''pickup'', ''custom''])"
  shows "add_planned s userId d b =
     ((400, Error (if truthy (pb_type b) \<and> truthy (pb_time b) then ''Invalid activity type''
                   else ''type and time are required'')), s)"
  using assms
  by (auto simp add: add_planned_def truthy_def split: option.splits)

lemma getOrCreate_found:
  "\<exists>t. findUnique_userId_date (snd (getOrCreateTrainingDay s userId d)) userId d = Some t
       \<and> td_id t = td_id (fst (getOrCreateTrainingDay s userId d))"
proof (cases "findUnique_userId_date s userId d")
  case None
  then show ?thesis
    by (simp add: getOrCreate_missing findUnique_created)
next
  case (Some t)
  then show ?thesis
    by (simp add: getOrCreate_existing)
qed

lemma add_planned_days:
  assumes "pb_type b = Some ty" and "pb_time b = Some time" and "ty \<noteq> []" and "time \<noteq> []"
    and "ty \<in> set [''shooting'', ''pickup'', ''custom'']"
  shows "tbl_trainingDay (snd (add_planned s userId d b)) =
     tbl_trainingDay (snd (getOrCreateTrainingDay s userId d))"
  using assms
  by (simp add: add_planned_def split_beta Let_def plannedActivity_create_def
      plannedActivity_deleteMany_def)

lemma add_planned_response:
  assumes "pb_type b = Some ty" and "pb_time b = Some time" and "ty \<noteq> []" and "time \<noteq> []"
    and "ty \<in> set [''shooting'', ''pickup'', ''custom'']"
  shows "fst (add_planned s userId d b) =
     respond_day 201 (snd (add_planned s userId d b)) (td_id (fst (getOrCreateTrainingDay s userId d)))"
  using assms by (simp add: add_planned_def split_beta Let_def)

lemma getOrCreate_nextId:
  "nextId (snd (getOrCreateTrainingDay s userId d)) =
     (case findUnique_userId_date s userId d of None \<Rightarrow> Suc (nextId s) | Some t \<Rightarrow> nextId s)"
  by (simp add: getOrCreate_missing getOrCreate_existing split: option.splits)

lemma plannedActivities_include [simp]:
  "plannedActivities (include_activities s t) =
     filter (\<lambda>p. pa_trainingDayId p = td_id t) (tbl_plannedActivity s)"
  by (simp add: include_activities_def training_day.defs)

text \<open>What a successful add-planned-shooting leaves and answers: the planned shooting
  rows the day held are gone, the requested one is appended, and the response shows it
  in the shooting slot.\<close>

lemma add_planned_shooting_result:
  assumes "pb_type b = Some ''shooting''" and "fst (fst (add_planned s userId d b)) = 201"
  shows "\<exists>t time. pb_time b = Some time
      \<and> findUnique_userId_date (snd (add_planned s userId d b)) userId d = Some t
      \<and> tbl_plannedActivity (snd (add_planned s userId d b)) =
          filter (\<lambda>p. \<not> (pa_trainingDayId p = td_id t \<and> pa_type p = ''shooting''))
            (tbl_plannedActivity s) @
          [\<lparr>pa_id = new_planned_id s userId d, pa_trainingDayId = td_id t,
            pa_type = ''shooting'', plannedTime = time, location = None, pa_name = None\<rparr>]
      \<and> planned_shooting (snd (add_planned s userId d b)) (td_id t) =
          [\<lparr>pa_id = new_planned_id s userId d, pa_trainingDayId = td_id t,
            pa_type = ''shooting'', plannedTime = time, location = None, pa_name = None\<rparr>]
      \<and> (\<exists>v. fst (add_planned s userId d b) = (201, Day v)
           \<and> pv_shooting (dv_planned v) =
               Some \<lparr>ss_id = new_planned_id s userId d, ss_time = time\<rparr>)"
proof -
  let ?s' = "snd (add_planned s userId d b)"
  have "\<exists>ty time. pb_type b = Some ty \<and> pb_time b = Some time \<and> ty \<noteq> [] \<and> time \<noteq> []
      \<and> ty \<in> set [''shooting'', ''pickup'', ''custom'']"
    using assms(2) add_planned_invalid [of b s userId d] by fastforce
  with assms(1) obtain time where b: "pb_type b = Some ''shooting''" "pb_time b = Some time"
    "''shooting'' \<noteq> []" "time \<noteq> []" "''shooting'' \<in> set [''shooting'', ''pickup'', ''custom'']"
    by auto
  obtain t where t: "findUnique_userId_date (snd (getOrCreateTrainingDay s userId d)) userId d = Some t"
    "td_id t = td_id (fst (getOrCreateTrainingDay s userId d))"
    using getOrCreate_found by blast
  define new where "new = \<lparr>pa_id = new_planned_id s userId d, pa_trainingDayId = td_id t,
      pa_type = ''shooting'', plannedTime = time, location = None, pa_name = None\<rparr>"
  have found: "findUnique_userId_date ?s' userId d = Some t"
    using t(1) add_planned_days [OF b, of s userId d] by (simp add: findUnique_userId_date_def)
  have tbl: "tbl_plannedActivity ?s' =
      filter (\<lambda>p. \<not> (pa_trainingDayId p = td_id t \<and> pa_type p = ''shooting''))
        (tbl_plannedActivity s) @ [new]"
    using add_planned_tbl [OF b, of s userId d] t(2)
    by (simp add: new_def new_planned_id_def getOrCreate_nextId)
  have one: "planned_shooting ?s' (td_id t) = [new]"
    by (simp add: planned_shooting_def tbl) (simp add: new_def)
  have resp: "fst (add_planned s userId d b) = respond_day 201 ?s' (td_id t)"
    using add_planned_response [OF b, of s userId d] t(2) by simp
  with assms(2) obtain t' where t': "findUnique_day ?s' (td_id t) = Some t'"
    and v: "fst (add_planned s userId d b) =
      (201, Day (formatTrainingDayResponse (include_activities ?s' t')))"
    by (auto simp add: respond_day_def split: option.splits)
  from t' have id: "td_id t' = td_id t"
    by (auto simp add: findUnique_day_def find_Some_iff)
  have "filter (\<lambda>a. pa_type a = ''shooting'')
          (filter (\<lambda>p. pa_trainingDayId p = td_id t) (tbl_plannedActivity ?s')) =
        planned_shooting ?s' (td_id t)"
    by (simp add: planned_shooting_def conj_commute)
  then have "pv_shooting (dv_planned (formatTrainingDayResponse (include_activities ?s' t'))) =
      Some (shooting_slot_of new)"
    by (simp add: formatTrainingDayResponse_def fold_planned_step_shooting id one)
  then have "pv_shooting (dv_planned (formatTrainingDayResponse (include_activities ?s' t'))) =
      Some \<lparr>ss_id = new_planned_id s userId d, ss_time = time\<rparr>"
    by (simp add: shooting_slot_of_def new_def)
  with v b(2) found tbl one show ?thesis
    unfolding new_def by blast
qed

lemma single_slot_iff: "single_slot s \<longleftrightarrow> (\<forall>i. length (planned_shooting s i) \<le> 1)"
proof
  assume a: "single_slot s"
  show "\<forall>i. length (planned_shooting s i) \<le> 1"
  proof
    fix i
    show "length (planned_shooting s i) \<le> 1"
    proof (cases "planned_shooting s i")
      case Nil
      then show ?thesis by simp
    next
      case (Cons p ps)
      then have "p \<in> set (planned_shooting s i)" by simp
      then have "p \<in> set (tbl_plannedActivity s)" and "pa_trainingDayId p = i"
        by (simp_all add: planned_shooting_def)
      with a show ?thesis
        by (auto simp add: single_slot_def list_all_iff)
    qed
  qed
next
  assume "\<forall>i. length (planned_shooting s i) \<le> 1"
  then show "single_slot s"
    by (simp add: single_slot_def list_all_iff)
qed

lemma single_slot_same:
  "tbl_plannedActivity s' = tbl_plannedActivity s \<Longrightarrow> single_slot s \<Longrightarrow> single_slot s'"
  by (simp add: single_slot_iff planned_shooting_def)

lemma respond_planned [simp]:
  "tbl_plannedActivity (actualActivity_create s i ty c m) = tbl_plannedActivity s"
  "tbl_plannedActivity (actualActivity_update s j c m) = tbl_plannedActivity s"
  "tbl_plannedActivity (actualActivity_delete s j) = tbl_plannedActivity s"
  "tbl_plannedActivity (trainingDay_update s j g) = tbl_plannedActivity s"
  by (simp_all add: actualActivity_create_def actualActivity_update_def actualActivity_delete_def
      trainingDay_update_def)

lemma get_day_planned: "tbl_plannedActivity (snd (get_day s userId d)) = tbl_plannedActivity s"
  using getOrCreate_planned [of s userId d]
  by (simp add: get_day_def split_beta)

lemma list_days_planned: "snd (list_days s userId lo hi) = s"
  by (simp add: list_days_def split: option.splits)

lemma put_day_planned: "tbl_plannedActivity (snd (put_day s userId d g)) = tbl_plannedActivity s"
  using getOrCreate_planned [of s userId d]
  by (simp add: put_day_def split_beta Let_def)

lemma log_actual_planned:
  "tbl_plannedActivity (snd (log_actual s userId now d b)) = tbl_plannedActivity s"
  using getOrCreate_planned [of s userId d]
  by (simp add: log_actual_def split_beta Let_def split: option.splits)

lemma update_actual_planned:
  "tbl_plannedActivity (snd (update_actual s userId d i b)) = tbl_plannedActivity s"
  by (simp add: update_actual_def Let_def split: option.splits)

lemma quick_shooting_planned:
  "tbl_plannedActivity (snd (quick_shooting s userId now d b)) = tbl_plannedActivity s"
  using getOrCreate_planned [of s userId d]
  by (simp add: quick_shooting_def split_beta Let_def split: option.splits)

lemma delete_planned_single_slot:
  assumes "single_slot s"
  shows "single_slot (snd (delete_planned s userId d i))"
proof -
  have "length (planned_shooting (plannedActivity_delete s i) j) \<le> length (planned_shooting s j)" for j
  proof -
    have "planned_shooting (plannedActivity_delete s i) j =
        filter (\<lambda>p. pa_id p \<noteq> i) (planned_shooting s j)"
      by (simp add: planned_shooting_def plannedActivity_delete_def conj_commute)
    then show ?thesis by simp
  qed
  then have "single_slot (plannedActivity_delete s i)"
    using assms unfolding single_slot_iff by (meson le_trans)
  with assms show ?thesis
    by (simp add: delete_planned_def Let_def split: option.splits)
qed

lemma add_planned_single_slot:
  assumes "single_slot s"
  shows "single_slot (snd (add_planned s userId d b))"
proof (cases "\<exists>ty time. pb_type b = Some ty \<and> pb_time b = Some time \<and> ty \<noteq> [] \<and> time \<noteq> []
      \<and> ty \<in> set [''shooting'', ''pickup'', ''custom'']")
  case False
  then show ?thesis
    using assms by (simp add: add_planned_invalid)
next
  case True
  then obtain ty time where b: "pb_type b = Some ty" "pb_time b = Some time" "ty \<noteq> []" "time \<noteq> []"
      "ty \<in> set [''shooting'', ''pickup'', ''custom'']"
    by blast
  define tid where "tid = td_id (fst (getOrCreateTrainingDay s userId d))"
  have t: "tbl_plannedActivity (snd (add_planned s userId d b)) =
     (if ty = ''shooting''
      then filter (\<lambda>p. \<not> (pa_trainingDayId p = tid \<and> pa_type p = ''shooting'')) (tbl_plannedActivity s)
      else tbl_plannedActivity s) @
     [\<lparr>pa_id = nextId (snd (getOrCreateTrainingDay s userId d)), pa_trainingDayId = tid,
       pa_type = ty, plannedTime = time,
       location = (if ty = ''pickup'' then pb_location b else None),
       pa_name = (if ty = ''custom'' then pb_name b else None)\<rparr>]"
    using add_planned_tbl [OF b, of s userId d] unfolding tid_def by blast
  have "length (planned_shooting (snd (add_planned s userId d b)) j) \<le> 1" for j
  proof (cases "ty = ''shooting''")
    case False
    then have "planned_shooting (snd (add_planned s userId d b)) j = planned_shooting s j"
      by (simp add: planned_shooting_def t)
    then show ?thesis
      using assms by (simp add: single_slot_iff)
  next
    case True
    show ?thesis
    proof (cases "j = tid")
      case True
      with \<open>ty = ''shooting''\<close> show ?thesis
        by (simp add: planned_shooting_def t)
    next
      case False
      have "filter (\<lambda>p. pa_trainingDayId p = j \<and> pa_type p = ''shooting'')
              (filter (\<lambda>p. \<not> (pa_trainingDayId p = tid \<and> pa_type p = ''shooting''))
                 (tbl_plannedActivity s)) =
            filter (\<lambda>p. pa_trainingDayId p = j \<and> pa_type p = ''shooting'') (tbl_plannedActivity s)"
        using False by (auto intro: filter_cong)
      with False \<open>ty = ''shooting''\<close>
      have "planned_shooting (snd (add_planned s userId d b)) j = planned_shooting s j"
        by (simp add: planned_shooting_def t)
      then show ?thesis
        using assms by (simp add: single_slot_iff)
    qed
  qed
  then show ?thesis
    by (simp add: single_slot_iff)
qed

lemma stats_store [simp]:
  "snd (stats_streak s userId clock tz) = s"
  "snd (stats_summary s userId clock tz) = s"
  "snd (stats_weekly s userId clock tz) = s"
  by (simp_all add: stats_streak_def stats_summary_def stats_weekly_def Let_def)

lemma handle_single_slot:
  assumes "single_slot s"
  shows "single_slot (snd (handle s userId now clock tz r))"
proof (cases r)
  case (GetDay d)
  then show ?thesis
    using assms single_slot_same [OF get_day_planned] by simp
next
  case (ListDays lo hi)
  then show ?thesis
    using assms by (simp add: list_days_planned)
next
  case (PutDay d g)
  then show ?thesis
    using assms single_slot_same [OF put_day_planned] by simp
next
  case (AddPlanned d b)
  then show ?thesis
    using assms add_planned_single_slot by simp
next
  case (DeletePlanned d i)
  then show ?thesis
    using assms delete_planned_single_slot by simp
next
  case (LogActual d b)
  then show ?thesis
    using assms single_slot_same [OF log_actual_planned] by simp
next
  case (UpdateActual d i b)
  then show ?thesis
    using assms single_slot_same [OF update_actual_planned] by simp
next
  case (QuickShooting d b)
  then show ?thesis
    using assms single_slot_same [OF quick_shooting_planned] by simp
next
  case GetStreak
  then show ?thesis
    using assms by simp
next
  case GetSummary
  then show ?thesis
    using assms by simp
next
  case GetWeekly
  then show ?thesis
    using assms by simp
qed

text \<open>
  Claim C7. After every successful add-planned-shooting operation (status 201) on a day,
  whatever number of planned shooting activities the day held before: every planned
  shooting activity the day held is deleted and the requested one is inserted, the rest
  of the table staying as it was, so that the day holds exactly one planned shooting
  activity, the one of the request, which the response shows in its shooting slot; and
  \<open>single_slot\<close> is preserved by every route, requests being handled one at a time.
\<close>

theorem add_planned_shooting_single_slot:
  "(pb_type b = Some ''shooting'' \<and> fst (fst (add_planned s userId d b)) = 201 \<longrightarrow>
      (\<exists>t time. pb_time b = Some time
         \<and> findUnique_userId_date (snd (add_planned s userId d b)) userId d = Some t
         \<and> tbl_plannedActivity (snd (add_planned s userId d b)) =
             filter (\<lambda>p. \<not> (pa_trainingDayId p = td_id t \<and> pa_type p = ''shooting''))
               (tbl_plannedActivity s) @
             [\<lparr>pa_id = new_planned_id s userId d, pa_trainingDayId = td_id t,
               pa_type = ''shooting'', plannedTime = time, location = None, pa_name = None\<rparr>]
         \<and> planned_shooting (snd (add_planned s userId d b)) (td_id t) =
             [\<lparr>pa_id = new_planned_id s userId d, pa_trainingDayId = td_id t,
               pa_type = ''shooting'', plannedTime = time, location = None, pa_name = None\<rparr>]
         \<and> (\<exists>v. fst (add_planned s userId d b) = (201, Day v)
              \<and> pv_shooting (dv_planned v) =
                  Some \<lparr>ss_id = new_planned_id s userId d, ss_time = time\<rparr>)))
   \<and> (single_slot s \<longrightarrow> single_slot (snd (handle s userId now clock tz r)))"
  using add_planned_shooting_result [of b s userId d]
    handle_single_slot [of s userId now clock tz r]
  by blast

theorem add_planned_shooting_single_slot_witness:
  "planned_shooting dup_store 1 =
     [\<lparr>pa_id = 2, pa_trainingDayId = 1, pa_type = ''shooting'', plannedTime = ''17:00'',
       location = None, pa_name = None\<rparr>,
      \<lparr>pa_id = 3, pa_trainingDayId = 1, pa_type = ''shooting'', plannedTime = ''18:00'',
       location = None, pa_name = None\<rparr>]
   \<and> fst (fst (add_planned dup_store 7 19737
        \<lparr>pb_type = Some ''shooting'', pb_time = Some ''19:00'', pb_location = None, pb_name = None\<rparr>)) = 201
   \<and> tbl_plannedActivity (snd (add_planned dup_store 7 19737
        \<lparr>pb_type = Some ''shooting'', pb_time = Some ''19:00'', pb_location = None, pb_name = None\<rparr>)) =
       [\<lparr>pa_id = 4, pa_trainingDayId = 1, pa_type = ''shooting'', plannedTime = ''19:00'',
         location = None, pa_name = None\<rparr>]
   \<and> single_slot scenario_store
   \<and> single_slot (snd (handle scenario_store 7 ''12:00'' clock_19737 0 (AddPlanned 19737
        \<lparr>pb_type = Some ''shooting'', pb_time = Some ''19:00'', pb_location = None, pb_name = None\<rparr>)))"
proof -
  let ?b = "\<lparr>pb_type = Some ''shooting'', pb_time = Some ''19:00'', pb_location = None, pb_name = None\<rparr>"
  have two: "planned_shooting dup_store 1 =
     [\<lparr>pa_id = 2, pa_trainingDayId = 1, pa_type = ''shooting'', plannedTime = ''17:00'',
       location = None, pa_name = None\<rparr>,
      \<lparr>pa_id = 3, pa_trainingDayId = 1, pa_type = ''shooting'', plannedTime = ''18:00'',
       location = None, pa_name = None\<rparr>]"
    by (simp add: planned_shooting_def dup_store_def)
  have ok: "fst (fst (add_planned dup_store 7 19737 ?b)) = 201"
    by code_simp
  have ty: "pb_type ?b = Some ''shooting''"
    by simp
  have inv: "single_slot scenario_store"
    by code_simp
  have day: "findUnique_userId_date dup_store 7 19737 =
      Some \<lparr>td_id = 1, td_userId = 7, td_date = 19737, isGameDay = False\<rparr>"
    by (simp add: findUnique_userId_date_def dup_store_def)
  then have nid: "new_planned_id dup_store 7 19737 = 4"
    by (simp add: new_planned_id_def) (simp add: dup_store_def)
  obtain t time where r: "pb_time ?b = Some time"
    "findUnique_userId_date (snd (add_planned dup_store 7 19737 ?b)) 7 19737 = Some t"
    "tbl_plannedActivity (snd (add_planned dup_store 7 19737 ?b)) =
       filter (\<lambda>p. \<not> (pa_trainingDayId p = td_id t \<and> pa_type p = ''shooting''))
         (tbl_plannedActivity dup_store) @
       [\<lparr>pa_id = new_planned_id dup_store 7 19737, pa_trainingDayId = td_id t,
         pa_type = ''shooting'', plannedTime = time, location = None, pa_name = None\<rparr>]"
    using add_planned_shooting_single_slot [of ?b dup_store 7 19737 "''12:00''" clock_19737 0
        GetWeekly] ok ty
    by blast
  have "tbl_trainingDay (snd (add_planned dup_store 7 19737 ?b)) = tbl_trainingDay dup_store"
    by code_simp
  with r(2) day have "td_id t = 1"
    by (simp add: findUnique_userId_date_def)
  with r(1) r(3) nid
  have tbl: "tbl_plannedActivity (snd (add_planned dup_store 7 19737 ?b)) =
       [\<lparr>pa_id = 4, pa_trainingDayId = 1, pa_type = ''shooting'', plannedTime = ''19:00'',
         location = None, pa_name = None\<rparr>]"
    by (simp add: dup_store_def)
  have "single_slot (snd (handle scenario_store 7 ''12:00'' clock_19737 0 (AddPlanned 19737 ?b)))"
    using add_planned_shooting_single_slot [of ?b scenario_store 7 19737 "''12:00''"
        clock_19737 0 "AddPlanned 19737 ?b"] inv
    by blast
  with two ok tbl inv show ?thesis
    by simp
qed

end
